theory Spec2Isabelle
  imports Main "HOL-Library.Word"
begin

unbundle bit_operations_syntax

section \<open>Frames and connections\<close>

type_synonym byte = "8 word"

text \<open>
  The message types dispatched on by \<open>readFrames\<close> (connection.go). Their numeric codes
  are declared outside the files at hand, so the type is kept symbolic;
  \<open>MessageTypeOther\<close> stands for every code the switch does not name.
\<close>

datatype MessageType =
    MessageTypeInitReq
  | MessageTypeInitRes
  | MessageTypeCallReq
  | MessageTypeCallRes
  | MessageTypeCallReqContinue
  | MessageTypeCallResContinue
  | MessageTypeError
  | MessageTypeOther byte

text \<open>A frame: the header fields \<open>Id\<close>, \<open>Type\<close>, \<open>Size\<close> and the payload array.\<close>

record Frame =
  Id :: "32 word"
  Type :: MessageType
  Size :: "16 word"
  Payload :: "byte list"

definition SizedPayload :: "Frame \<Rightarrow> byte list" where
  "SizedPayload f = take (unat (Size f)) (Payload f)"

datatype connectionState =
    connectionWaitingToRecvInitReq
  | connectionWaitingToSendInitReq
  | connectionWaitingToRecvInitRes
  | connectionActive
  | connectionStartClose
  | connectionInboundClosed
  | connectionClosed

section \<open>Message ids\<close>

text \<open>
  connection.go: \<open>NextMessageId\<close> is \<open>atomic.AddUint32(&c.nextMessageId, 1)\<close>: it adds one
  to the \<open>uint32\<close> counter, with wrap-around, and returns the new value. The counter is
  the zero value of the field when \<open>newConnection\<close> builds the connection.
\<close>

definition NextMessageId :: "32 word \<Rightarrow> 32 word \<times> 32 word" where
  "NextMessageId nextMessageId = (nextMessageId + 1, nextMessageId + 1)"

definition newConnection_nextMessageId :: "32 word" where
  "newConnection_nextMessageId = 0"

text \<open>\<open>n\<close> successive calls of \<open>NextMessageId\<close>: the ids returned, in order, and the counter left.\<close>

fun NextMessageIds :: "nat \<Rightarrow> 32 word \<Rightarrow> 32 word list \<times> 32 word" where
  "NextMessageIds 0 c = ([], c)"
| "NextMessageIds (Suc n) c =
     (let (i, c') = NextMessageId c; (is, c'') = NextMessageIds n c' in (i # is, c''))"

text \<open>
  The Node handler (v2 handler): \<open>lastSentFrameId = (lastSentFrameId + 1) % v2.Frame.MaxId\<close>,
  starting from \<open>lastSentFrameId = 0\<close>. \<open>v2.Frame.MaxId\<close> is declared outside the files at
  hand and is a parameter here. The numbers involved are non-negative integers.
\<close>

definition nextFrameId :: "nat \<Rightarrow> nat \<Rightarrow> nat \<times> nat" where
  "nextFrameId MaxId lastSentFrameId =
     (let l = (lastSentFrameId + 1) mod MaxId in (l, l))"

fun nextFrameIds :: "nat \<Rightarrow> nat \<Rightarrow> nat \<Rightarrow> nat list \<times> nat" where
  "nextFrameIds MaxId 0 l = ([], l)"
| "nextFrameIds MaxId (Suc n) l =
     (let (i, l') = nextFrameId MaxId l; (is, l'') = nextFrameIds MaxId n l' in (i # is, l''))"

section \<open>Errors, channels and the code outside the files at hand\<close>

text \<open>
  The error values of fragmentation.go, connection.go and inbound.go, under their own
  names. \<open>EOF\<close> is \<open>io.EOF\<close>, \<open>ErrContextDone\<close> is \<open>ctx.Err()\<close> of a cancelled context,
  \<open>ErrBuffer\<close> is an error of a typed read or write buffer that ran out of bytes or of
  room. A run-time panic of the Go code is a value as well: \<open>PanicNilPointer\<close> for a
  dereferenced nil pointer, \<open>PanicSliceBounds\<close> for a slice expression out of range.
\<close>

datatype error =
    ErrMismatchedChecksumTypes
  | ErrWriteAfterComplete
  | ErrMismatchedChecksum
  | ErrDataLeftover
  | errTooLarge
  | errAlignedAtEndOfOpenFragment
  | errNoOpenChunk
  | errChunkAlreadyOpen
  | ErrSendBufferFull
  | ErrInboundCallStateMismatch
  | ErrInboundCallResponseStateMismatch
  | ErrInboundRequestAlreadyActive
  | EOF
  | ErrContextDone
  | ErrBuffer
  | ErrMessage
  | PanicNilPointer
  | PanicSliceBounds

definition isPanic :: "error \<Rightarrow> bool" where
  "isPanic e = (e = PanicNilPointer \<or> e = PanicSliceBounds)"

text \<open>
  A buffered Go channel of frames: its queue, its capacity and whether it was closed.
  \<open>trySend\<close> is the \<open>select\<close> with a \<open>default\<close> branch around a send: the frame is queued
  when there is room, and nothing happens otherwise.
\<close>

record chan =
  buf :: "Frame list"
  cap :: nat
  closed :: bool

definition make_chan :: "nat \<Rightarrow> chan" where
  "make_chan n = \<lparr>buf = [], cap = n, closed = False\<rparr>"

definition trySend :: "chan \<Rightarrow> Frame \<Rightarrow> chan option" where
  "trySend c f = (if length (buf c) < cap c then Some (c\<lparr>buf := buf c @ [f]\<rparr>) else None)"

text \<open>The request header fields of a \<open>CallReq\<close> that inbound.go reads.\<close>

record CallReq =
  TimeToLive :: nat
  Service :: string

record ErrorMessage =
  em_id :: "32 word"
  OriginalMessageId :: "32 word"
  ErrorCode :: byte
  Message :: string

text \<open>
  Modelled from the spec: the checksum implementations, the message codecs and their
  typed buffers are outside the files at hand. A checksum is the rolling digest of the
  spec (section 4.2): it has a type code, bytes are added to it, and its value is a
  function \<open>digest\<close> of the type and of all the bytes added so far; \<open>ChecksumSize\<close> is
  the number of checksum bytes a fragment reserves for a type and \<open>ChecksumTypeCrc32\<close>
  the type code of CRC32. \<open>CallRes_write\<close> and
  \<open>CallResContinue_write\<close> are the header bytes that \<open>msg.write\<close> produces for a
  response (by its application-error flag) and for a continuation; \<open>CallReq_read\<close> and
  \<open>CallReqContinue_read\<close> are \<open>msg.read\<close>: they consume the message header from the
  bytes of a read buffer and return what is left, or fail; \<open>ErrorMessage_write\<close> is
  \<open>msg.write\<close> of an error message; \<open>GetSystemErrorCode\<close> and \<open>Error\<close> read the code and
  the text of a Go error value, here of type \<open>'e\<close>.
\<close>

record Checksum =
  TypeCode :: byte
  added :: "byte list"

record 'e Deps =
  digest :: "byte \<Rightarrow> byte list \<Rightarrow> byte list"
  ChecksumSize :: "byte \<Rightarrow> nat"
  ChecksumTypeCrc32 :: byte
  CallRes_write :: "bool \<Rightarrow> byte list"
  CallResContinue_write :: "byte list"
  CallReq_read :: "byte list \<Rightarrow> error + (CallReq \<times> byte list)"
  CallReqContinue_read :: "byte list \<Rightarrow> error + (unit \<times> byte list)"
  ErrorMessage_write :: "ErrorMessage \<Rightarrow> error + byte list"
  GetSystemErrorCode :: "'e \<Rightarrow> byte"
  Error :: "'e \<Rightarrow> string"

definition Checksum_New :: "byte \<Rightarrow> Checksum" where
  "Checksum_New t = \<lparr>TypeCode = t, added = []\<rparr>"

definition Checksum_Add :: "Checksum \<Rightarrow> byte list \<Rightarrow> Checksum" where
  "Checksum_Add c b = c\<lparr>added := added c @ b\<rparr>"

definition Checksum_Sum :: "'e Deps \<Rightarrow> Checksum \<Rightarrow> byte list" where
  "Checksum_Sum d c = digest d (TypeCode c) (added c)"

text \<open>
  \<open>copy(dst, src)\<close> where \<open>dst\<close> is the slice of \<open>n\<close> bytes at offset \<open>off\<close> of the
  array \<open>arr\<close>: the first \<open>min n (len src)\<close> bytes of \<open>src\<close> overwrite the array there.
\<close>

definition copyInto :: "nat \<Rightarrow> nat \<Rightarrow> byte list \<Rightarrow> byte list \<Rightarrow> byte list" where
  "copyInto off n src arr =
     take off arr @ take (min n (length src)) src @ drop (off + min n (length src)) arr"

text \<open>\<open>binary.BigEndian\<close>: a 16-bit value as two bytes, high byte first.\<close>

definition PutUint16 :: "16 word \<Rightarrow> byte list" where
  "PutUint16 v = [ucast (drop_bit 8 v), ucast v]"

definition Uint16 :: "byte \<Rightarrow> byte \<Rightarrow> 16 word" where
  "Uint16 hi lo = push_bit 8 (ucast hi) OR ucast lo"

section \<open>Outbound fragments (fragmentation.go)\<close>

definition flagMoreFragments :: byte where
  "flagMoreFragments = 1"

text \<open>
  An \<open>outFragment\<close>. Its slices all point into the payload array of its frame, so each
  is kept as an offset: \<open>remaining\<close> is the offset at which the slice \<open>f.remaining\<close>
  starts (the slice runs to the end of the array), \<open>checksumBytes\<close> is the offset and
  length of the reserved checksum bytes, \<open>chunkStart\<close> is the offset of the two bytes
  reserved for the size of the open chunk, \<open>None\<close> for the nil slice.
\<close>

record outFragment =
  frame :: Frame
  checksum :: Checksum
  checksumBytes :: "nat \<times> nat"
  chunkStart :: "nat option"
  chunkSize :: nat
  remaining :: nat

definition bytesRemaining :: "outFragment \<Rightarrow> nat" where
  "bytesRemaining f = length (Payload (frame f)) - remaining f"

definition chunkOpen :: "outFragment \<Rightarrow> bool" where
  "chunkOpen f = (chunkStart f \<noteq> None)"

definition canFitNewChunk :: "outFragment \<Rightarrow> bool" where
  "canFitNewChunk f = (bytesRemaining f > 2)"

definition setPayload :: "byte list \<Rightarrow> outFragment \<Rightarrow> outFragment" where
  "setPayload p f = f\<lparr>frame := (frame f)\<lparr>Payload := p\<rparr>\<rparr>"

text \<open>\<open>writeChunkData\<close> returns the number of bytes written and the error, with the fragment.\<close>

definition writeChunkData :: "outFragment \<Rightarrow> byte list \<Rightarrow> (nat \<times> error option) \<times> outFragment" where
  "writeChunkData f b =
     (if length b > bytesRemaining f then ((0, Some errTooLarge), f)
      else if chunkStart f = None then ((0, Some errNoOpenChunk), f)
      else ((length b, None),
            (setPayload (copyInto (remaining f) (bytesRemaining f) b (Payload (frame f))) f)
              \<lparr>checksum := Checksum_Add (checksum f) b,
               chunkSize := chunkSize f + length b,
               remaining := remaining f + length b\<rparr>))"

text \<open>
  \<open>beginChunk\<close>: the slice expression \<open>f.remaining[0:2]\<close> panics when fewer than two bytes
  remain.
\<close>

definition beginChunk :: "outFragment \<Rightarrow> error option \<times> outFragment" where
  "beginChunk f =
     (if chunkOpen f then (Some errChunkAlreadyOpen, f)
      else if bytesRemaining f < 2 then (Some PanicSliceBounds, f)
      else (None, f\<lparr>chunkStart := Some (remaining f), chunkSize := 0,
                     remaining := remaining f + 2\<rparr>))"

definition endChunk :: "outFragment \<Rightarrow> error option \<times> outFragment" where
  "endChunk f =
     (case chunkStart f of
        None \<Rightarrow> (Some errNoOpenChunk, f)
      | Some cs \<Rightarrow>
          (None, (setPayload (copyInto cs 2 (PutUint16 (word_of_nat (chunkSize f)))
                                (Payload (frame f))) f)
                   \<lparr>chunkStart := None, chunkSize := 0\<rparr>))"

text \<open>
  \<open>finish\<close> closes an open chunk, sets or clears the more-fragments bit of the first
  payload byte, copies the checksum value into the reserved bytes and stores the size.
  The fragment is changed in place; the frame returned is the fragment's own frame.
\<close>

definition finish :: "'e Deps \<Rightarrow> outFragment \<Rightarrow> bool \<Rightarrow> outFragment" where
  "finish d f lastF =
     (let f1 = (if chunkOpen f then snd (endChunk f) else f);
          p1 = Payload (frame f1);
          p2 = (if lastF then p1[0 := (p1 ! 0) AND NOT flagMoreFragments]
                else p1[0 := (p1 ! 0) OR flagMoreFragments]);
          p3 = copyInto (fst (checksumBytes f1)) (snd (checksumBytes f1))
                 (Checksum_Sum d (checksum f1)) p2
      in f1\<lparr>frame := (frame f1)\<lparr>Payload := p3, Size := word_of_nat (remaining f1)\<rparr>\<rparr>)"

text \<open>A message as \<open>newOutboundFragment\<close> uses it: its id, its type and the bytes its \<open>write\<close> produces.\<close>

record Msg =
  msgId :: "32 word"
  msgType :: MessageType
  msgWrite :: "byte list"

text \<open>
  \<open>newOutboundFragment\<close>: the write buffer over the payload takes the flag byte, the
  message header and the checksum type and fails when the payload has no room for them;
  the checksum bytes are reserved next (a slice expression, which panics when they do not
  fit) and everything after them is available for chunks.
\<close>

definition newOutboundFragment :: "'e Deps \<Rightarrow> Frame \<Rightarrow> Msg \<Rightarrow> Checksum \<Rightarrow> error + outFragment" where
  "newOutboundFragment d fr msg cs =
     (let hdr = [0] @ msgWrite msg @ [TypeCode cs];
          n = ChecksumSize d (TypeCode cs)
      in if length (Payload fr) < length hdr then Inl ErrBuffer
         else if length (Payload fr) - length hdr < n then Inl PanicSliceBounds
         else Inr \<lparr>frame = fr\<lparr>Id := msgId msg, Type := msgType msg,
                                 Payload := copyInto 0 (length hdr) hdr (Payload fr)\<rparr>,
                    checksum = cs,
                    checksumBytes = (length hdr, n),
                    chunkStart = None,
                    chunkSize = 0,
                    remaining = length hdr + n\<rparr>)"

section \<open>The inbound call pipeline and the response of an inbound call (inbound.go)\<close>

text \<open>
  The pipeline. The per-call channels are shared between the registry \<open>activeReqChs\<close> and
  the calls reading from them, so they live in a store \<open>chans\<close> and the registry holds
  references; \<open>nextChan\<close> is the next fresh reference for \<open>make(chan *Frame, 512)\<close>.
  \<open>framePool\<close> is the frame that \<open>framePool.Get()\<close> hands out (the pool is outside the
  files at hand) and \<open>log\<close> collects the lines logged.
\<close>

record inboundCallPipeline =
  activeReqChs :: "32 word \<rightharpoonup> nat"
  chans :: "nat \<rightharpoonup> chan"
  nextChan :: nat
  sendCh :: chan
  framePool :: Frame
  log :: "string list"

datatype inboundCallResponseState =
    inboundCallResponseReadyToWriteArg2
  | inboundCallResponseReadyToWriteArg3
  | inboundCallResponseComplete
  | inboundCallResponseError

record multiPartWriter =
  fragment :: "outFragment option"
  alignsAtEnd :: bool
  complete :: bool

text \<open>
  The response. \<open>res_cancelled\<close> records that \<open>cancel\<close> of the call context was called.
  The writer's channel \<open>fragments\<close> is the response itself, which sends through the
  pipeline: the writer's operations work on the response and the pipeline together.
\<close>

record InboundCallResponse =
  res_id :: "32 word"
  res_cancelled :: bool
  res_checksum :: Checksum
  res_state :: inboundCallResponseState
  startedFirstFragment :: bool
  partWriter :: multiPartWriter
  applicationError :: bool

type_synonym wstate = "InboundCallResponse \<times> inboundCallPipeline"

definition newMultiPartWriter :: multiPartWriter where
  "newMultiPartWriter = \<lparr>fragment = None, alignsAtEnd = False, complete = False\<rparr>"

text \<open>
  \<open>MarshalMessage\<close> (connection.go), for a message with the given id and type whose
  \<open>write\<close> gives \<open>w\<close>, into the frame \<open>fr\<close> taken from the pool.
\<close>

definition MarshalMessage :: "Frame \<Rightarrow> 32 word \<Rightarrow> MessageType \<Rightarrow> error + byte list \<Rightarrow> error + Frame" where
  "MarshalMessage fr i t w =
     (case w of
        Inl e \<Rightarrow> Inl e
      | Inr bs \<Rightarrow>
          if length (Payload fr) < length bs then Inl ErrBuffer
          else Inr (fr\<lparr>Id := i, Type := t, Size := word_of_nat (length bs),
                        Payload := copyInto 0 (length bs) bs (Payload fr)\<rparr>))"

text \<open>
  \<open>SendSystemError\<close>. The error passed in is an error value of type \<open>'e\<close>, whose code and
  text go into the error message; a nil error, on which \<open>err.Error()\<close> cannot be called,
  is not among these values.
\<close>

definition SendSystemError :: "'e Deps \<Rightarrow> wstate \<Rightarrow> 'e \<Rightarrow> error option \<times> wstate" where
  "SendSystemError d s err =
     (let (call, p) = s;
          call1 = call\<lparr>res_cancelled := True, res_state := inboundCallResponseComplete\<rparr>
      in case MarshalMessage (framePool p) (res_id call1) MessageTypeError
                (ErrorMessage_write d
                   \<lparr>em_id = res_id call1, OriginalMessageId = res_id call1,
                    ErrorCode = GetSystemErrorCode d err, Message = Error d err\<rparr>) of
           Inl e \<Rightarrow> (None, (call1, p\<lparr>log := log p @ [''Could not create outbound frame'']\<rparr>))
         | Inr fr \<Rightarrow>
             (case trySend (sendCh p) fr of
                Some c \<Rightarrow> (None, (call1, p\<lparr>sendCh := c\<rparr>))
              | None \<Rightarrow> (None, (call1, p\<lparr>log := log p @ [''Could not send error frame'']\<rparr>))))"

text \<open>
  \<open>beginFragment\<close>. Nothing in the files at hand ever sets \<open>startedFirstFragment\<close>; the
  field is read as it is.
\<close>

definition beginFragment :: "'e Deps \<Rightarrow> wstate \<Rightarrow> error + outFragment" where
  "beginFragment d s =
     (let (call, p) = s;
          msg = (if \<not> startedFirstFragment call
                 then \<lparr>msgId = res_id call, msgType = MessageTypeCallRes,
                       msgWrite = CallRes_write d (applicationError call)\<rparr>
                 else \<lparr>msgId = res_id call, msgType = MessageTypeCallResContinue,
                       msgWrite = CallResContinue_write d\<rparr>)
      in newOutboundFragment d (framePool p) msg (res_checksum call))"


text \<open>
  \<open>flushFragment\<close>: \<open>f.finish(last)\<close> is evaluated first, then the frame is sent unless the
  send channel is full. The checksum object of the fragment is the one of the response,
  so what the fragment added to it is seen by the response.
\<close>

definition flushFragment :: "'e Deps \<Rightarrow> wstate \<Rightarrow> outFragment \<Rightarrow> bool \<Rightarrow> error option \<times> outFragment \<times> wstate" where
  "flushFragment d s f lastF =
     (let (call, p) = s;
          f1 = finish d f lastF;
          call1 = call\<lparr>res_checksum := checksum f1\<rparr>
      in case trySend (sendCh p) (frame f1) of
           Some c \<Rightarrow> (None, f1, (call1, p\<lparr>sendCh := c\<rparr>))
         | None \<Rightarrow> (Some ErrSendBufferFull, f1, (call1, p)))"

section \<open>The multi-part writer (fragmentation.go)\<close>

definition setFragment :: "outFragment option \<Rightarrow> wstate \<Rightarrow> wstate" where
  "setFragment fo s = (case s of (call, p) \<Rightarrow> (call\<lparr>partWriter := (partWriter call)\<lparr>fragment := fo\<rparr>\<rparr>, p))"

definition getFragment :: "wstate \<Rightarrow> outFragment option" where
  "getFragment s = fragment (partWriter (fst s))"

definition finishFragment :: "'e Deps \<Rightarrow> wstate \<Rightarrow> bool \<Rightarrow> error option \<times> wstate" where
  "finishFragment d s lastF =
     (case getFragment s of
        None \<Rightarrow> (Some PanicNilPointer, s)
      | Some f \<Rightarrow>
          (case flushFragment d s (snd (endChunk f)) lastF of
             (e, f1, s1) \<Rightarrow> (e, setFragment None s1)))"

text \<open>
  One pass through the body of the loop of \<open>ensureOpenChunk\<close>: \<open>Inl\<close> when the body
  returns, \<open>Inr\<close> when the loop goes round again.
\<close>

definition ensureOpenChunk_step :: "'e Deps \<Rightarrow> wstate \<Rightarrow> (error option \<times> wstate) + wstate" where
  "ensureOpenChunk_step d s =
     (case (case getFragment s of None \<Rightarrow> beginFragment d s | Some f \<Rightarrow> Inr f) of
        Inl e \<Rightarrow> Inl (Some e, s)
      | Inr f \<Rightarrow>
          if chunkOpen f then Inl (None, setFragment (Some f) s)
          else if canFitNewChunk f then Inl (None, setFragment (Some (snd (beginChunk f))) s)
          else (case finishFragment d (setFragment (Some f) s) False of
                  (Some e, s1) \<Rightarrow> Inl (Some e, s1)
                | (None, s1) \<Rightarrow> Inr s1))"

definition freeSlots :: "wstate \<Rightarrow> nat" where
  "freeSlots s = cap (sendCh (snd s)) - length (buf (sendCh (snd s)))"

lemma ensureOpenChunk_step_freeSlots:
  "ensureOpenChunk_step d s = Inr s1 \<Longrightarrow> freeSlots s1 < freeSlots s"
  by (cases s)
     (auto simp: ensureOpenChunk_step_def finishFragment_def flushFragment_def setFragment_def
        getFragment_def freeSlots_def trySend_def Let_def
        split: sum.splits option.splits if_splits prod.splits)

function ensureOpenChunk :: "'e Deps \<Rightarrow> wstate \<Rightarrow> error option \<times> wstate" where
  "ensureOpenChunk d s =
     (case ensureOpenChunk_step d s of Inl r \<Rightarrow> r | Inr s1 \<Rightarrow> ensureOpenChunk d s1)"
  by pat_completeness auto
termination
  by (relation "measure (\<lambda>(d, s). freeSlots s)") (auto simp: ensureOpenChunk_step_freeSlots)

declare ensureOpenChunk.simps [simp del]

lemma ensureOpenChunk_freeSlots: "freeSlots (snd (ensureOpenChunk d s)) \<le> freeSlots s"
proof (induction d s rule: ensureOpenChunk.induct)
  case (1 d s)
  show ?case
  proof (cases "ensureOpenChunk_step d s")
    case (Inl r)
    then have "freeSlots (snd r) \<le> freeSlots s"
      by (cases s)
         (auto simp: ensureOpenChunk_step_def finishFragment_def flushFragment_def
            setFragment_def getFragment_def freeSlots_def trySend_def Let_def
            split: sum.splits option.splits if_splits prod.splits)
    with Inl show ?thesis by (simp add: ensureOpenChunk.simps [of d s])
  next
    case (Inr s1)
    with 1 ensureOpenChunk_step_freeSlots [OF Inr] show ?thesis
      by (simp add: ensureOpenChunk.simps [of d s])
  qed
qed

definition setAlignsAtEnd :: "bool \<Rightarrow> wstate \<Rightarrow> wstate" where
  "setAlignsAtEnd a s = (case s of (call, p) \<Rightarrow> (call\<lparr>partWriter := (partWriter call)\<lparr>alignsAtEnd := a\<rparr>\<rparr>, p))"

definition setComplete :: "bool \<Rightarrow> wstate \<Rightarrow> wstate" where
  "setComplete a s = (case s of (call, p) \<Rightarrow> (call\<lparr>partWriter := (partWriter call)\<lparr>complete := a\<rparr>\<rparr>, p))"

text \<open>
  One pass through the loop of \<open>Write\<close>, on the writer, the bytes \<open>b\<close> still to write and
  the count \<open>written\<close>: \<open>Inl\<close> when the loop is left (its test fails, or the body returns
  an error), \<open>Inr\<close> when it goes round again. After \<open>ensureOpenChunk\<close> the code
  dereferences \<open>w.fragment\<close>, which panics on nil.
\<close>

definition Write_step ::
  "'e Deps \<Rightarrow> wstate \<times> byte list \<times> nat \<Rightarrow> ((nat \<times> error option) \<times> wstate) + (wstate \<times> byte list \<times> nat)" where
  "Write_step d x =
     (case x of (s, b, written) \<Rightarrow>
        if length b = 0 then Inl ((written, None), s)
        else (case ensureOpenChunk d s of
                (Some e, s1) \<Rightarrow> Inl ((written, Some e), s1)
              | (None, s1) \<Rightarrow>
                  (case getFragment s1 of
                     None \<Rightarrow> Inl ((written, Some PanicNilPointer), s1)
                   | Some f \<Rightarrow>
                       if bytesRemaining f < length b then
                         (case writeChunkData f (take (bytesRemaining f) b) of
                            ((n, Some e), f1) \<Rightarrow> Inl ((written + n, Some e), setFragment (Some f1) s1)
                          | ((n, None), f1) \<Rightarrow>
                              (case finishFragment d (setFragment (Some f1) s1) False of
                                 (Some e, s2) \<Rightarrow> Inl ((written, Some e), s2)
                               | (None, s2) \<Rightarrow>
                                   Inr (s2, drop (bytesRemaining f) b, written + bytesRemaining f)))
                       else
                         (case writeChunkData f b of
                            ((n, Some e), f1) \<Rightarrow> Inl ((written + n, Some e), setFragment (Some f1) s1)
                          | ((n, None), f1) \<Rightarrow>
                              Inr (setAlignsAtEnd (bytesRemaining f1 = 0) (setFragment (Some f1) s1),
                                   [], written + length b)))))"

lemma Write_step_measure:
  assumes "Write_step d (s, b, written) = Inr (s2, b2, written2)"
  shows "freeSlots s2 < freeSlots s \<or> (freeSlots s2 = freeSlots s \<and> length b2 < length b)"
proof -
  have nb: "length b \<noteq> 0"
    using assms by (auto simp: Write_step_def)
  obtain e0 s1 where eo: "ensureOpenChunk d s = (e0, s1)" by (cases "ensureOpenChunk d s")
  have le: "freeSlots s1 \<le> freeSlots s"
    using ensureOpenChunk_freeSlots [of d s] eo by simp
  have "freeSlots s2 < freeSlots s1 \<or> (freeSlots s2 = freeSlots s1 \<and> b2 = [])"
    using assms nb eo
    by (cases s1)
       (auto simp: Write_step_def finishFragment_def flushFragment_def setFragment_def
          setAlignsAtEnd_def getFragment_def freeSlots_def trySend_def Let_def
          split: sum.splits option.splits if_splits prod.splits)
  with le nb show ?thesis by auto
qed

function Write_loop :: "'e Deps \<Rightarrow> wstate \<times> byte list \<times> nat \<Rightarrow> (nat \<times> error option) \<times> wstate" where
  "Write_loop d x = (case Write_step d x of Inl r \<Rightarrow> r | Inr x1 \<Rightarrow> Write_loop d x1)"
  by pat_completeness auto
termination
proof (relation "measures [\<lambda>(d, s, b, w). freeSlots s, \<lambda>(d, s, b, w). length b]")
  show "wf (measures [\<lambda>(d :: 'e Deps, s, b :: byte list, w :: nat). freeSlots s, \<lambda>(d, s, b, w). length b])"
    by simp
next
  fix d :: "'e Deps" and x x1 :: "wstate \<times> byte list \<times> nat"
  assume a: "Write_step d x = Inr x1"
  obtain s b w where x: "x = (s, b, w)" by (cases x)
  obtain s2 b2 w2 where x1: "x1 = (s2, b2, w2)" by (cases x1)
  show "((d, x1), (d, x)) \<in> measures [\<lambda>(d, s, b, w). freeSlots s, \<lambda>(d, s, b, w). length b]"
    using Write_step_measure [OF a [unfolded x x1]] by (auto simp: x x1)
qed

declare Write_loop.simps [simp del]

definition multiPartWriter_Write :: "'e Deps \<Rightarrow> wstate \<Rightarrow> byte list \<Rightarrow> (nat \<times> error option) \<times> wstate" where
  "multiPartWriter_Write d s b =
     (if complete (partWriter (fst s)) then ((0, Some ErrWriteAfterComplete), s)
      else (case Write_loop d (s, b, 0) of
              ((written, Some e), s1) \<Rightarrow> ((written, Some e), s1)
            | ((written, None), s1) \<Rightarrow>
                (case getFragment s1 of
                   None \<Rightarrow> ((written, Some PanicNilPointer), s1)
                 | Some f \<Rightarrow>
                     if bytesRemaining f = 0 then
                       (case finishFragment d s1 False of
                          (Some e, s2) \<Rightarrow> ((written, Some e), s2)
                        | (None, s2) \<Rightarrow> ((written, None), s2))
                     else ((written, None), s1))))"

text \<open>
  \<open>endPart\<close> of the writer. The result of \<open>beginChunk\<close> is dropped by the code, a panic
  apart; \<open>w.fragment.chunkOpen()\<close> panics when no fragment was ever begun.
\<close>

definition multiPartWriter_endPart :: "'e Deps \<Rightarrow> wstate \<Rightarrow> bool \<Rightarrow> error option \<times> wstate" where
  "multiPartWriter_endPart d s lastF =
     (case (if alignsAtEnd (partWriter (fst s)) then
              (if getFragment s \<noteq> None then Inl errAlignedAtEndOfOpenFragment
               else (case beginFragment d s of
                       Inl e \<Rightarrow> Inl e
                     | Inr f \<Rightarrow>
                         (case beginChunk f of
                            (Some e, f1) \<Rightarrow>
                              if isPanic e then Inl e else Inr (setFragment (Some f1) s)
                          | (None, f1) \<Rightarrow> Inr (setFragment (Some f1) s))))
            else Inr s) of
        Inl e \<Rightarrow> (Some e, s)
      | Inr s1 \<Rightarrow>
          (case getFragment s1 of
             None \<Rightarrow> (Some PanicNilPointer, s1)
           | Some f \<Rightarrow>
               (let f1 = (if chunkOpen f then snd (endChunk f) else f);
                    s2 = setFragment (Some f1) s1
                in if lastF then
                     (case flushFragment d s2 f1 True of
                        (Some e, f2, s3) \<Rightarrow> (Some e, setFragment (Some f2) s3)
                      | (None, f2, s3) \<Rightarrow> (None, setComplete True (setFragment (Some f2) s3)))
                   else (None, s2))))"

text \<open>\<open>WritePart\<close> for an output that hands its bytes to \<open>Write\<close> in one call.\<close>

definition WritePart :: "'e Deps \<Rightarrow> wstate \<Rightarrow> byte list \<Rightarrow> bool \<Rightarrow> error option \<times> wstate" where
  "WritePart d s b lastF =
     (case multiPartWriter_Write d s b of
        ((n, Some e), s1) \<Rightarrow> (Some e, s1)
      | ((n, None), s1) \<Rightarrow> multiPartWriter_endPart d s1 lastF)"

section \<open>Inbound fragments and the inbound call (fragmentation.go, inbound.go)\<close>

record inFragment =
  in_frame :: Frame
  in_last :: bool
  in_checksum :: Checksum
  chunks :: "byte list list"

text \<open>
  The loop of \<open>newInboundFragment\<close> that slices what is left of the payload into chunks:
  a big-endian 16-bit size, then that many bytes, until no byte remains.
\<close>

fun readChunks :: "byte list \<Rightarrow> error + byte list list" where
  "readChunks [] = Inr []"
| "readChunks [x] = Inl ErrBuffer"
| "readChunks (hi # lo # rest) =
     (let n = unat (Uint16 hi lo)
      in if length rest < n then Inl ErrBuffer
         else (case readChunks (drop n rest) of
                 Inl e \<Rightarrow> Inl e
               | Inr cs \<Rightarrow> Inr (take n rest # cs)))"

text \<open>
  \<open>newInboundFragment\<close>, for a message whose \<open>read\<close> is \<open>msgRead\<close>. \<open>cso\<close> is the checksum
  passed in, \<open>None\<close> for nil. The result carries the message read along with the fragment.
\<close>

definition newInboundFragment ::
  "'e Deps \<Rightarrow> (byte list \<Rightarrow> error + ('m \<times> byte list)) \<Rightarrow> Frame \<Rightarrow> Checksum option
     \<Rightarrow> error + (inFragment \<times> 'm)" where
  "newInboundFragment d msgRead fr cso =
     (if length (Payload fr) < unat (Size fr) then Inl PanicSliceBounds
      else (case take (unat (Size fr)) (Payload fr) of
              [] \<Rightarrow> Inl ErrBuffer
            | flags # rest \<Rightarrow>
                (case msgRead rest of
                   Inl e \<Rightarrow> Inl e
                 | Inr (m, rest1) \<Rightarrow>
                     (case rest1 of
                        [] \<Rightarrow> Inl ErrBuffer
                      | checksumType # rest2 \<Rightarrow>
                          (case (case cso of
                                   None \<Rightarrow> Inr (Checksum_New checksumType)
                                 | Some c \<Rightarrow>
                                     if checksumType \<noteq> TypeCode c
                                     then Inl ErrMismatchedChecksumTypes else Inr c) of
                             Inl e \<Rightarrow> Inl e
                           | Inr c \<Rightarrow>
                               (let n = ChecksumSize d (TypeCode c)
                                in if length rest2 < n then Inl ErrBuffer
                                   else (case readChunks (drop n rest2) of
                                           Inl e \<Rightarrow> Inl e
                                         | Inr cs \<Rightarrow>
                                             (let c1 = fold (\<lambda>chunkBytes c. Checksum_Add c chunkBytes) cs c
                                              in if take n rest2 \<noteq> Checksum_Sum d c1
                                                 then Inl ErrMismatchedChecksum
                                                 else Inr (\<lparr>in_frame = fr,
                                                            in_last = (flags AND flagMoreFragments = 0),
                                                            in_checksum = c1,
                                                            chunks = cs\<rparr>, m)))))))))"

definition nextChunk :: "inFragment \<Rightarrow> byte list \<times> inFragment" where
  "nextChunk f = (case chunks f of [] \<Rightarrow> ([], f) | c # cs \<Rightarrow> (c, f\<lparr>chunks := cs\<rparr>))"

definition hasMoreChunks :: "inFragment \<Rightarrow> bool" where
  "hasMoreChunks f = (length (chunks f) > 0)"

datatype inboundCallState =
    inboundCallPreRead
  | inboundCallReadyToReadArg2
  | inboundCallReadyToReadArg3
  | inboundCallAllRead
  | inboundCallError

text \<open>
  The inbound call. \<open>recvCh\<close> is the reference of its channel in the store of the
  pipeline; \<open>call_ctxDone\<close> says that the context of the call is done (cancelled, or past
  its deadline); \<open>call_checksum\<close> is the field \<open>checksum\<close>, \<open>None\<close> for nil.
\<close>

record InboundCall =
  call_id :: "32 word"
  call_res :: InboundCallResponse
  call_ctxDone :: bool
  serviceName :: string
  operation :: "byte list"
  call_state :: inboundCallState
  recvLastFragment :: bool
  recvCh :: nat
  curFragment :: "inFragment option"
  call_checksum :: "Checksum option"

type_synonym rstate = "InboundCall \<times> inboundCallPipeline"

definition inboundCallComplete :: "inboundCallPipeline \<Rightarrow> 32 word \<Rightarrow> inboundCallPipeline" where
  "inboundCallComplete p messageId = p\<lparr>activeReqChs := (activeReqChs p)(messageId := None)\<rparr>"

definition failed :: "rstate \<Rightarrow> error \<Rightarrow> error \<times> rstate" where
  "failed s err =
     (case s of (call, p) \<Rightarrow>
        (err, (call\<lparr>call_state := inboundCallError\<rparr>, inboundCallComplete p (call_id call))))"

text \<open>
  \<open>waitForFragment\<close>. On success the fragment returned is \<open>curFragment\<close> of the call left
  behind. The \<open>select\<close> takes the context branch when the context is done; otherwise it
  receives the frame at the head of the channel; a closed and drained channel yields the
  nil frame, which \<open>newInboundFragment\<close> dereferences. With no frame queued, the channel
  open and the context live, the goroutine waits: the status \<open>Waiting\<close> stands for
  that, and the state is left as it is. With the context done and a frame queued as
  well, the \<open>select\<close> of Go takes either branch; the function takes the context branch
  then, and what is stated below about a frame received is stated for a live context,
  where the receive is the only branch that is ready.
\<close>

datatype status = NoError | Failed error | Waiting

definition waitForFragment :: "'e Deps \<Rightarrow> rstate \<Rightarrow> status \<times> rstate" where
  "waitForFragment d s =
     (case s of (call, p) \<Rightarrow>
        if (case curFragment call of None \<Rightarrow> False | Some f \<Rightarrow> hasMoreChunks f) then (NoError, s)
        else if recvLastFragment call then (case failed s EOF of (e, s1) \<Rightarrow> (Failed e, s1))
        else if call_ctxDone call then (case failed s ErrContextDone of (e, s1) \<Rightarrow> (Failed e, s1))
        else (case chans p (recvCh call) of
                None \<Rightarrow> (Waiting, s)
              | Some ch \<Rightarrow>
                  (case buf ch of
                     [] \<Rightarrow> if closed ch
                           then (case failed s PanicNilPointer of (e, s1) \<Rightarrow> (Failed e, s1))
                           else (Waiting, s)
                   | fr # frs \<Rightarrow>
                       (let p1 = p\<lparr>chans := (chans p)(recvCh call \<mapsto> ch\<lparr>buf := frs\<rparr>)\<rparr>
                        in case newInboundFragment d (CallReqContinue_read d) fr (call_checksum call) of
                             Inl e \<Rightarrow> (case failed (call, p1) e of (e1, s1) \<Rightarrow> (Failed e1, s1))
                           | Inr (frag, m) \<Rightarrow>
                               (NoError, (call\<lparr>curFragment := Some frag,
                                               recvLastFragment := in_last frag\<rparr>, p1))))))"

section \<open>The multi-part reader (fragmentation.go)\<close>

record multiPartReader =
  chunk :: "byte list"
  lastChunkInFragment :: bool
  lastPartInMessage :: bool

definition newMultiPartReader :: "bool \<Rightarrow> multiPartReader" where
  "newMultiPartReader lastF = \<lparr>chunk = [], lastChunkInFragment = False, lastPartInMessage = lastF\<rparr>"

text \<open>
  \<open>takeChunk\<close> is the pair of statements \<open>r.chunk = nextFragment.nextChunk()\<close> and
  \<open>r.lastChunkInFragment = nextFragment.hasMoreChunks()\<close> of \<open>Read\<close>, on the fragment that
  \<open>waitForFragment\<close> returned: the current fragment of the call, which \<open>nextChunk\<close> changes
  in place.
\<close>

definition takeChunk :: "multiPartReader \<Rightarrow> rstate \<Rightarrow> (error + multiPartReader) \<times> rstate" where
  "takeChunk r s =
     (case s of (call, p) \<Rightarrow>
        (case curFragment call of
           None \<Rightarrow> (Inl PanicNilPointer, s)
         | Some f \<Rightarrow>
             (case nextChunk f of
                (c, f1) \<Rightarrow>
                  (Inr (r\<lparr>chunk := c, lastChunkInFragment := hasMoreChunks f1\<rparr>),
                   (call\<lparr>curFragment := Some f1\<rparr>, p)))))"

text \<open>
  One pass through the loop of \<open>Read\<close>, on the reader, the call, the number \<open>n\<close> of bytes
  of \<open>b\<close> not yet filled and the bytes \<open>acc\<close> copied so far (\<open>totalRead\<close> is their number).
  A result \<open>(acc, Waiting)\<close> says that the goroutine waits for a frame.
\<close>

type_synonym readResult = "(byte list \<times> status) \<times> multiPartReader \<times> rstate"

definition copyChunk :: "multiPartReader \<times> rstate \<times> nat \<times> byte list \<Rightarrow> multiPartReader \<times> rstate \<times> nat \<times> byte list" where
  "copyChunk x =
     (case x of (r, s, n, acc) \<Rightarrow>
        (let k = min n (length (chunk r))
         in (r\<lparr>chunk := drop k (chunk r)\<rparr>, s, n - k, acc @ take k (chunk r))))"

definition Read_step ::
  "'e Deps \<Rightarrow> multiPartReader \<times> rstate \<times> nat \<times> byte list
     \<Rightarrow> readResult + (multiPartReader \<times> rstate \<times> nat \<times> byte list)" where
  "Read_step d x =
     (case x of (r, s, n, acc) \<Rightarrow>
        if n = 0 then Inl ((acc, NoError), r, s)
        else if length (chunk r) = 0 then
          (if lastChunkInFragment r then Inl ((acc, Failed EOF), r, s)
           else (case waitForFragment d s of
                   (Failed e, s1) \<Rightarrow> Inl ((acc, Failed e), r, s1)
                 | (Waiting, s1) \<Rightarrow> Inl ((acc, Waiting), r, s1)
                 | (NoError, s1) \<Rightarrow>
                     (case takeChunk r s1 of
                        (Inl e, s2) \<Rightarrow> Inl ((acc, Failed e), r, s2)
                      | (Inr r1, s2) \<Rightarrow> Inr (copyChunk (r1, s2, n, acc)))))
        else Inr (copyChunk (r, s, n, acc)))"

text \<open>What is still to be consumed: frames queued, chunks of the current fragment, bytes of the chunk.\<close>

definition pendingFrames :: "rstate \<Rightarrow> nat" where
  "pendingFrames s =
     (case s of (call, p) \<Rightarrow>
        (case chans p (recvCh call) of None \<Rightarrow> 0 | Some ch \<Rightarrow> length (buf ch)))"

definition pendingChunks :: "rstate \<Rightarrow> nat" where
  "pendingChunks s = (case curFragment (fst s) of None \<Rightarrow> 0 | Some f \<Rightarrow> length (chunks f))"

lemma waitForFragment_pending:
  assumes "waitForFragment d s = (NoError, s1)"
  shows "(s1 = s \<and> 0 < pendingChunks s) \<or> pendingFrames s1 < pendingFrames s"
  using assms
  by (cases s)
     (auto simp: waitForFragment_def failed_def pendingFrames_def pendingChunks_def
        hasMoreChunks_def Let_def
        split: option.splits if_splits list.splits sum.splits prod.splits)

lemma takeChunk_pending:
  assumes "takeChunk r s = (Inr r1, s1)"
  shows "pendingFrames s1 = pendingFrames s"
    and "pendingChunks s1 = pendingChunks s - 1"
  using assms
  by (cases s; auto simp: takeChunk_def nextChunk_def pendingFrames_def pendingChunks_def
        split: option.splits list.splits)+

lemma Read_step_measure:
  assumes "Read_step d (r, s, n, acc) = Inr (r1, s1, n1, acc1)"
  shows "pendingFrames s1 < pendingFrames s
     \<or> (pendingFrames s1 = pendingFrames s \<and> pendingChunks s1 < pendingChunks s)
     \<or> (pendingFrames s1 = pendingFrames s \<and> pendingChunks s1 = pendingChunks s
          \<and> length (chunk r1) < length (chunk r))"
proof (cases "length (chunk r) = 0")
  case False
  with assms show ?thesis
    by (auto simp: Read_step_def copyChunk_def Let_def min_def split: if_splits)
next
  case True
  with assms obtain s0 r0 where w: "waitForFragment d s = (NoError, s0)"
    and t: "takeChunk r s0 = (Inr r0, s1)"
    by (auto simp: Read_step_def copyChunk_def Let_def
          split: if_splits prod.splits status.splits sum.splits)
  from waitForFragment_pending [OF w] takeChunk_pending [OF t] show ?thesis
    by auto
qed

function Read_loop :: "'e Deps \<Rightarrow> multiPartReader \<times> rstate \<times> nat \<times> byte list \<Rightarrow> readResult" where
  "Read_loop d x = (case Read_step d x of Inl out \<Rightarrow> out | Inr x1 \<Rightarrow> Read_loop d x1)"
  by pat_completeness auto
termination
proof (relation "measures [\<lambda>(d, r, s, n, acc). pendingFrames s, \<lambda>(d, r, s, n, acc). pendingChunks s,
                            \<lambda>(d, r, s, n, acc). length (chunk r)]")
  show "wf (measures [\<lambda>(d :: 'e Deps, r :: multiPartReader, s, n :: nat, acc :: byte list). pendingFrames s,
                      \<lambda>(d, r, s, n, acc). pendingChunks s, \<lambda>(d, r, s, n, acc). length (chunk r)])"
    by simp
next
  fix d :: "'e Deps" and x x1 :: "multiPartReader \<times> rstate \<times> nat \<times> byte list"
  assume a: "Read_step d x = Inr x1"
  obtain r s n acc where x: "x = (r, s, n, acc)" by (cases x)
  obtain r1 s1 n1 acc1 where x1: "x1 = (r1, s1, n1, acc1)" by (cases x1)
  show "((d, x1), (d, x)) \<in> measures [\<lambda>(d, r, s, n, acc). pendingFrames s,
          \<lambda>(d, r, s, n, acc). pendingChunks s, \<lambda>(d, r, s, n, acc). length (chunk r)]"
    using Read_step_measure [OF a [unfolded x x1]] by (auto simp: x x1)
qed

declare Read_loop.simps [simp del]

definition multiPartReader_Read :: "'e Deps \<Rightarrow> multiPartReader \<Rightarrow> rstate \<Rightarrow> nat \<Rightarrow> readResult" where
  "multiPartReader_Read d r s n = Read_loop d (r, s, n, [])"

text \<open>\<open>endPart\<close> of the reader.\<close>

definition multiPartReader_endPart :: "'e Deps \<Rightarrow> multiPartReader \<Rightarrow> rstate \<Rightarrow> status \<times> multiPartReader \<times> rstate" where
  "multiPartReader_endPart d r s =
     (if length (chunk r) > 0 then (Failed ErrDataLeftover, r, s)
      else if \<not> lastChunkInFragment r \<and> \<not> lastPartInMessage r then
        (case waitForFragment d s of
           (Failed e, s1) \<Rightarrow> (Failed e, r, s1)
         | (Waiting, s1) \<Rightarrow> (Waiting, r, s1)
         | (NoError, s1) \<Rightarrow>
             (case s1 of (call, p) \<Rightarrow>
                (case curFragment call of
                   None \<Rightarrow> (Failed PanicNilPointer, r, s1)
                 | Some f \<Rightarrow>
                     (case nextChunk f of
                        (c, f1) \<Rightarrow>
                          (if length c > 0 then Failed ErrDataLeftover else NoError,
                           r\<lparr>chunk := c\<rparr>, (call\<lparr>curFragment := Some f1\<rparr>, p))))))
      else (NoError, r, s))"

text \<open>
  \<open>readOrder\<close> compares two states of a reader and its call by what is still to be
  consumed. A \<open>Read\<close> that fills a non-empty buffer without error has consumed something.
\<close>

definition readOrder :: "((multiPartReader \<times> rstate) \<times> (multiPartReader \<times> rstate)) set" where
  "readOrder = measures [\<lambda>(r, s). pendingFrames s, \<lambda>(r, s). pendingChunks s, \<lambda>(r, s). length (chunk r)]"

lemma Read_loop_order:
  "Read_loop d (r, s, n, acc) = ((bs, NoError), r1, s1)
   \<Longrightarrow> (n = 0 \<and> r1 = r \<and> s1 = s) \<or> ((r1, s1), (r, s)) \<in> readOrder"
proof (induction d "(r, s, n, acc)" arbitrary: r s n acc rule: Read_loop.induct)
  case (1 d)
  show ?case
  proof (cases "Read_step d (r, s, n, acc)")
    case (Inl out)
    with "1.prems" have o: "out = ((bs, NoError), r1, s1)"
      by (simp add: Read_loop.simps [of d "(r, s, n, acc)"])
    with Inl show ?thesis
      by (auto simp: Read_step_def split: if_splits prod.splits status.splits sum.splits)
  next
    case (Inr x1)
    obtain r2 s2 n2 acc2 where x1: "x1 = (r2, s2, n2, acc2)" by (cases x1)
    from Inr "1.prems" have l: "Read_loop d (r2, s2, n2, acc2) = ((bs, NoError), r1, s1)"
      by (simp add: Read_loop.simps [of d "(r, s, n, acc)"] x1)
    from "1.hyps" [OF Inr [unfolded x1] l]
    have ih: "(n2 = 0 \<and> r1 = r2 \<and> s1 = s2) \<or> ((r1, s1), (r2, s2)) \<in> readOrder" .
    from Read_step_measure [OF Inr [unfolded x1]]
    have st: "((r2, s2), (r, s)) \<in> readOrder"
      by (auto simp: readOrder_def)
    from ih st show ?thesis
      by (auto simp: readOrder_def)
  qed
qed

text \<open>
  \<open>ioutil.ReadAll\<close> on the reader: \<open>Read\<close> is called with a buffer of free space, which the
  standard library keeps at \<open>bytes.MinRead\<close> = 512 bytes or more, until it returns an
  error; \<open>io.EOF\<close> ends the reading without error. The model offers 512 bytes each time.
\<close>

definition ReadAll_step ::
  "'e Deps \<Rightarrow> multiPartReader \<times> rstate \<times> byte list \<Rightarrow> readResult + (multiPartReader \<times> rstate \<times> byte list)" where
  "ReadAll_step d x =
     (case x of (r, s, acc) \<Rightarrow>
        (case multiPartReader_Read d r s 512 of
           ((bs, NoError), r1, s1) \<Rightarrow> Inr (r1, s1, acc @ bs)
         | ((bs, Waiting), r1, s1) \<Rightarrow> Inl ((acc @ bs, Waiting), r1, s1)
         | ((bs, Failed e), r1, s1) \<Rightarrow>
             if e = EOF then Inl ((acc @ bs, NoError), r1, s1)
             else Inl ((acc @ bs, Failed e), r1, s1)))"

function ReadAll_loop :: "'e Deps \<Rightarrow> multiPartReader \<times> rstate \<times> byte list \<Rightarrow> readResult" where
  "ReadAll_loop d x = (case ReadAll_step d x of Inl out \<Rightarrow> out | Inr x1 \<Rightarrow> ReadAll_loop d x1)"
  by pat_completeness auto
termination
proof (relation "inv_image readOrder (\<lambda>(d, r, s, acc). (r, s))")
  show "wf (inv_image readOrder (\<lambda>(d :: 'e Deps, r, s, acc :: byte list). (r, s)))"
    by (simp add: readOrder_def)
next
  fix d :: "'e Deps" and x x1 :: "multiPartReader \<times> rstate \<times> byte list"
  assume a: "ReadAll_step d x = Inr x1"
  obtain r s acc where x: "x = (r, s, acc)" by (cases x)
  obtain r1 s1 acc1 where x1: "x1 = (r1, s1, acc1)" by (cases x1)
  from a obtain bs where "Read_loop d (r, s, 512, []) = ((bs, NoError), r1, s1)"
    by (auto simp: ReadAll_step_def multiPartReader_Read_def x x1
          split: prod.splits status.splits if_splits)
  from Read_loop_order [OF this]
  show "((d, x1), (d, x)) \<in> inv_image readOrder (\<lambda>(d, r, s, acc). (r, s))"
    by (simp add: x x1)
qed

declare ReadAll_loop.simps [simp del]

definition ReadAll :: "'e Deps \<Rightarrow> multiPartReader \<Rightarrow> rstate \<Rightarrow> readResult" where
  "ReadAll d r s = ReadAll_loop d (r, s, [])"

text \<open>
  Reading one argument: the input is read from the reader, then the part is ended; any
  error marks the call as failed. \<open>readOperation\<close> reads with \<open>ioutil.ReadAll\<close>; the inputs
  of \<open>ReadArg2\<close> and \<open>ReadArg3\<close> are taken to read their stream to its end in the same way.
  The bytes read are returned with the status.
\<close>

definition failedStatus :: "rstate \<Rightarrow> status \<Rightarrow> status \<times> rstate" where
  "failedStatus s st =
     (case st of Failed e \<Rightarrow> (case failed s e of (e1, s1) \<Rightarrow> (Failed e1, s1)) | _ \<Rightarrow> (st, s))"

definition readArg ::
  "'e Deps \<Rightarrow> rstate \<Rightarrow> inboundCallState \<Rightarrow> bool \<Rightarrow> inboundCallState \<Rightarrow> (status \<times> byte list) \<times> rstate" where
  "readArg d s expected lastF next =
     (if call_state (fst s) \<noteq> expected then
        (case failed s ErrInboundCallStateMismatch of (e, s1) \<Rightarrow> ((Failed e, []), s1))
      else (case ReadAll d (newMultiPartReader lastF) s of
              ((arg, NoError), r1, s1) \<Rightarrow>
                (case multiPartReader_endPart d r1 s1 of
                   (NoError, r2, (call, p)) \<Rightarrow> ((NoError, arg), (call\<lparr>call_state := next\<rparr>, p))
                 | (st, r2, s2) \<Rightarrow> (case failedStatus s2 st of (st1, s3) \<Rightarrow> ((st1, []), s3)))
            | ((arg, st), r1, s1) \<Rightarrow> (case failedStatus s1 st of (st1, s2) \<Rightarrow> ((st1, []), s2))))"

definition readOperation :: "'e Deps \<Rightarrow> rstate \<Rightarrow> status \<times> rstate" where
  "readOperation d s =
     (case readArg d s inboundCallPreRead False inboundCallReadyToReadArg2 of
        ((NoError, arg1), (call, p)) \<Rightarrow> (NoError, (call\<lparr>operation := arg1\<rparr>, p))
      | ((st, arg1), s1) \<Rightarrow> (st, s1))"

definition ReadArg2 :: "'e Deps \<Rightarrow> rstate \<Rightarrow> (status \<times> byte list) \<times> rstate" where
  "ReadArg2 d s = readArg d s inboundCallReadyToReadArg2 False inboundCallReadyToReadArg3"

definition ReadArg3 :: "'e Deps \<Rightarrow> rstate \<Rightarrow> (status \<times> byte list) \<times> rstate" where
  "ReadArg3 d s = readArg d s inboundCallReadyToReadArg3 True inboundCallAllRead"

text \<open>
  \<open>handleCallReq\<close>: the pipeline left behind, and the call for which the dispatching
  goroutine is started, if any. The context of the call is made by
  \<open>context.WithTimeout\<close>, which is done at once for a time to live of zero.
\<close>

definition handleCallReq :: "'e Deps \<Rightarrow> inboundCallPipeline \<Rightarrow> Frame \<Rightarrow> inboundCallPipeline \<times> InboundCall option" where
  "handleCallReq d p fr =
     (let reqCh = nextChan p;
          p0 = p\<lparr>chans := (chans p)(reqCh \<mapsto> make_chan 512), nextChan := Suc reqCh\<rparr>
      in if activeReqChs p0 (Id fr) \<noteq> None then (p0, None)
         else (let p1 = p0\<lparr>activeReqChs := (activeReqChs p0)(Id fr \<mapsto> reqCh)\<rparr>
               in case newInboundFragment d (CallReq_read d) fr None of
                    Inl e \<Rightarrow> (p1\<lparr>log := log p1 @ [''Could not decode call req'']\<rparr>, None)
                  | Inr (firstFragment, callReq) \<Rightarrow>
                      (p1, Some \<lparr>call_id = Id fr,
                                 call_res = \<lparr>res_id = Id fr,
                                             res_cancelled = False,
                                             res_checksum = Checksum_New (ChecksumTypeCrc32 d),
                                             res_state = inboundCallResponseReadyToWriteArg2,
                                             startedFirstFragment = False,
                                             partWriter = newMultiPartWriter,
                                             applicationError = False\<rparr>,
                                 call_ctxDone = (TimeToLive callReq = 0),
                                 serviceName = Service callReq,
                                 operation = [],
                                 call_state = inboundCallPreRead,
                                 recvLastFragment = in_last firstFragment,
                                 recvCh = reqCh,
                                 curFragment = Some firstFragment,
                                 call_checksum = None\<rparr>)))"

text \<open>
  \<open>handleCallReqContinue\<close>: the frame is queued on the channel registered for its id; with
  no room in the queue the call is taken out of the registry and its channel is closed.
\<close>

definition handleCallReqContinue :: "inboundCallPipeline \<Rightarrow> Frame \<Rightarrow> inboundCallPipeline" where
  "handleCallReqContinue p fr =
     (case activeReqChs p (Id fr) of
        None \<Rightarrow> p
      | Some reqCh \<Rightarrow>
          (case chans p reqCh of
             None \<Rightarrow> p
           | Some ch \<Rightarrow>
               (case trySend ch fr of
                  Some ch1 \<Rightarrow> p\<lparr>chans := (chans p)(reqCh \<mapsto> ch1)\<rparr>
                | None \<Rightarrow>
                    (let p1 = inboundCallComplete p (Id fr)
                     in p1\<lparr>chans := (chans p1)(reqCh \<mapsto> ch\<lparr>closed := True\<rparr>)\<rparr>))))"

section \<open>An instance for evaluation\<close>

text \<open>
  Concrete codecs, to run the definitions on: message headers of no bytes, read back as
  such; the checksum type 0 with no checksum bytes and the type 1 with four, the sum of
  all bytes added in big-endian order, a rolling digest standing in for CRC32; an error
  message that encodes as its id, in one byte, unless its text is longer than 255.
\<close>

definition BE32 :: "32 word \<Rightarrow> byte list" where
  "BE32 w = [ucast (drop_bit 24 w), ucast (drop_bit 16 w), ucast (drop_bit 8 w), ucast w]"

definition exDeps :: "string Deps" where
  "exDeps = \<lparr>digest = (\<lambda>t bs. if t = 0 then [] else BE32 (sum_list (map ucast bs))),
             ChecksumSize = (\<lambda>t. if t = 0 then 0 else 4),
             ChecksumTypeCrc32 = 1,
             CallRes_write = (\<lambda>a. []),
             CallResContinue_write = [],
             CallReq_read = (\<lambda>bs. Inr (\<lparr>TimeToLive = 1000, Service = ''svc''\<rparr>, bs)),
             CallReqContinue_read = (\<lambda>bs. Inr ((), bs)),
             ErrorMessage_write =
               (\<lambda>m. if length (Message m) > 255 then Inl ErrMessage else Inr [ucast (em_id m)]),
             GetSystemErrorCode = (\<lambda>e. 0),
             Error = (\<lambda>e. e)\<rparr>"

text \<open>A pipeline with nothing registered, a send channel of capacity \<open>c\<close> and frames of \<open>n\<close> payload bytes.\<close>

definition exPipeline :: "nat \<Rightarrow> nat \<Rightarrow> inboundCallPipeline" where
  "exPipeline c n =
     \<lparr>activeReqChs = Map.empty, chans = Map.empty, nextChan = 0, sendCh = make_chan c,
      framePool = \<lparr>Id = 0, Type = MessageTypeOther 0, Size = 0, Payload = replicate n 0\<rparr>,
      log = []\<rparr>"

text \<open>The response of call 7 as \<open>handleCallReq\<close> builds it, with a checksum of type \<open>t\<close>.\<close>

definition exResponse :: "byte \<Rightarrow> InboundCallResponse" where
  "exResponse t =
     \<lparr>res_id = 7, res_cancelled = False, res_checksum = Checksum_New t,
      res_state = inboundCallResponseReadyToWriteArg2, startedFirstFragment = False,
      partWriter = newMultiPartWriter, applicationError = False\<rparr>"

definition exFullPipeline :: inboundCallPipeline where
  "exFullPipeline =
     (exPipeline 512 16)\<lparr>activeReqChs := [7 \<mapsto> 0],
        chans := [0 \<mapsto> \<lparr>buf = replicate 512 (framePool (exPipeline 512 16)), cap = 512, closed = False\<rparr>],
        nextChan := 1\<rparr>"




section \<open>The argument streams of the Node variant (argstream.js)\<close>

text \<open>
  A \<open>StreamArg\<close>: whether it has started (its first write was seen), whether it has been
  ended, and the buffers written to it. An \<open>InArgStream\<close> holds the three of them, the
  index \<open>_iStream\<close> of the current one and the flag \<open>finished\<close>, set once all three have
  emitted \<open>finish\<close>; a stream is taken to emit \<open>finish\<close> when it is ended.
\<close>

record StreamArg =
  started :: bool
  ended :: bool
  written :: "byte list list"

record InArgStream =
  streams :: "StreamArg list"
  iStream :: nat
  finished :: bool

datatype jsError = JsError string | JsTypeError string

definition newStreamArg :: StreamArg where
  "newStreamArg = \<lparr>started = False, ended = False, written = []\<rparr>"

definition newInArgStream :: InArgStream where
  "newInArgStream = \<lparr>streams = [newStreamArg, newStreamArg, newStreamArg], iStream = 0, finished = False\<rparr>"

text \<open>\<open>streams[i].end()\<close>, with the listener \<open>argFinished\<close>.\<close>

definition endStream :: "nat \<Rightarrow> InArgStream \<Rightarrow> InArgStream" where
  "endStream i st =
     (let ss = (streams st)[i := (streams st ! i)\<lparr>ended := True\<rparr>]
      in st\<lparr>streams := ss, finished := (finished st \<or> list_all ended ss)\<rparr>)"

text \<open>
  \<open>streams[i].write(part)\<close>. The first write to a stream emits \<open>start\<close>, on which \<open>arg2\<close>
  ends \<open>arg1\<close> and \<open>arg3\<close> ends \<open>arg2\<close> unless they are ended; a write to an ended stream is
  the error \<open>write after end\<close>.
\<close>

definition writeStream :: "nat \<Rightarrow> byte list \<Rightarrow> InArgStream \<Rightarrow> jsError + InArgStream" where
  "writeStream i part st =
     (if ended (streams st ! i) then Inl (JsError ''write after end'')
      else (let st1 = (if \<not> started (streams st ! i) \<and> 0 < i \<and> \<not> ended (streams st ! (i - 1))
                       then endStream (i - 1) st else st);
                s = streams st1 ! i
            in Inr (st1\<lparr>streams := (streams st1)[i := s\<lparr>started := True, written := written s @ [part]\<rparr>]\<rparr>)))"

definition advance :: "InArgStream \<Rightarrow> InArgStream" where
  "advance st =
     (if iStream st < length (streams st)
      then (endStream (iStream st) st)\<lparr>iStream := iStream st + 1\<rparr> else st)"

text \<open>
  The \<open>while\<close> loop of \<open>handleFrame\<close> over the parts not yet handled; \<open>lastSet\<close> says that
  \<open>last\<close> is not null. The loop stops when \<open>streams[_iStream]\<close> is undefined, and returns
  the parts left. After \<open>advance\<close> the index can be 3, where \<open>streams[_iStream].write\<close> throws
  a \<open>TypeError\<close>.
\<close>

fun handleParts :: "byte list list \<Rightarrow> bool \<Rightarrow> InArgStream \<Rightarrow> jsError + (InArgStream \<times> byte list list)" where
  "handleParts [] lastSet st = Inr (st, [])"
| "handleParts (part # rest) lastSet st =
     (if \<not> iStream st < length (streams st) then Inr (st, part # rest)
      else (let st1 = (if lastSet then advance st else st)
            in if length part \<noteq> 0 then
                 (if \<not> iStream st1 < length (streams st1)
                  then Inl (JsTypeError ''Cannot call method write of undefined'')
                  else (case writeStream (iStream st1) part st1 of
                          Inl e \<Rightarrow> Inl e
                        | Inr st2 \<Rightarrow> handleParts rest True st2))
               else handleParts rest True st1))"

text \<open>The loop of \<open>handleFrame(null)\<close>: every stream from \<open>_iStream\<close> on is ended.\<close>

function endRemaining :: "InArgStream \<Rightarrow> InArgStream" where
  "endRemaining st =
     (if iStream st < length (streams st)
      then endRemaining ((endStream (iStream st) st)\<lparr>iStream := iStream st + 1\<rparr>)
      else st)"
  by pat_completeness auto
termination
  by (relation "measure (\<lambda>st. length (streams st) - iStream st)") (auto simp: endStream_def Let_def)

declare endRemaining.simps [simp del]

definition handleFrame :: "InArgStream \<Rightarrow> byte list list option \<Rightarrow> jsError + InArgStream" where
  "handleFrame st parts =
     (case parts of
        None \<Rightarrow> Inr (endRemaining st)
      | Some ps \<Rightarrow>
          if finished st then Inl (JsError ''arg stream finished'')
          else (case handleParts ps False st of
                  Inl e \<Rightarrow> Inl e
                | Inr (st1, left) \<Rightarrow>
                    if left \<noteq> [] then Inl (JsError ''frame parts exceeded stream arity'')
                    else Inr st1))"

text \<open>The argument streams after a frame with the one part \<open>[1, 2]\<close>.\<close>

definition exOneArgStream :: InArgStream where
  "exOneArgStream =
     \<lparr>streams = [\<lparr>started = True, ended = False, written = [[1, 2]]\<rparr>, newStreamArg, newStreamArg],
      iStream = 0, finished = False\<rparr>"

text \<open>A call whose terminal fragment carried the single chunk \<open>[1, 2]\<close>, which has been consumed.\<close>

definition exOneChunkCall :: rstate where
  "exOneChunkCall =
     (let r = handleCallReq exDeps (exPipeline 512 16)
                \<lparr>Id = 7, Type = MessageTypeCallReq, Size = 6, Payload = [0, 0, 0, 2, 1, 2]\<rparr>;
          call = the (snd r)
      in (call\<lparr>curFragment := map_option (\<lambda>f. f\<lparr>chunks := []\<rparr>) (curFragment call)\<rparr>, fst r))"

section \<open>The connection and its reader loop (connection.go)\<close>

record PeerInfo =
  HostPort :: string
  ProcessName :: string

text \<open>An \<open>InitReq\<close> or \<open>InitRes\<close>: the id, the version and the two init parameters.\<close>

record InitMessage =
  init_id :: "32 word"
  Version :: nat
  InitParamHostPort :: string
  InitParamProcessName :: string

definition CurrentProtocolVersion :: nat where
  "CurrentProtocolVersion = 2"

text \<open>
  The connection: its state, its pipeline for inbound calls (whose send channel is the
  send channel of the connection), the peers, and whether the network connection was
  closed.
\<close>

record TChannelConnection =
  conn_state :: connectionState
  inbound :: inboundCallPipeline
  localPeerInfo :: PeerInfo
  remotePeerInfo :: PeerInfo
  netClosed :: bool

text \<open>
  The handlers of the reader loop that are outside the files at hand are parameters:
  \<open>handleCallRes\<close>, \<open>handleCallResContinue\<close>, \<open>handleError\<close> and \<open>forwardResFrame\<close>, each
  from a connection and a frame to the connection left behind; so are \<open>read\<close> of an
  \<open>InitReq\<close> and \<open>write\<close> of an \<open>InitRes\<close>.
\<close>

record ConnDeps =
  handleCallRes :: "TChannelConnection \<Rightarrow> Frame \<Rightarrow> TChannelConnection"
  handleCallResContinue :: "TChannelConnection \<Rightarrow> Frame \<Rightarrow> TChannelConnection"
  handleError :: "TChannelConnection \<Rightarrow> Frame \<Rightarrow> TChannelConnection"
  forwardResFrame :: "TChannelConnection \<Rightarrow> Frame \<Rightarrow> TChannelConnection"
  InitReq_read :: "byte list \<Rightarrow> error + InitMessage"
  InitRes_write :: "InitMessage \<Rightarrow> error + byte list"

text \<open>\<open>connectionError\<close>: the first error closes the connection and the network.\<close>

definition connectionError :: "TChannelConnection \<Rightarrow> TChannelConnection" where
  "connectionError c =
     (if conn_state c \<noteq> connectionClosed
      then c\<lparr>conn_state := connectionClosed, netClosed := True\<rparr> else c)"

text \<open>\<open>sendMessage\<close>; a message that cannot be marshalled is dropped and nil is returned.\<close>

definition sendMessage :: "TChannelConnection \<Rightarrow> 32 word \<Rightarrow> MessageType \<Rightarrow> error + byte list
    \<Rightarrow> error option \<times> TChannelConnection" where
  "sendMessage c i t w =
     (case MarshalMessage (framePool (inbound c)) i t w of
        Inl e \<Rightarrow> (None, c)
      | Inr f \<Rightarrow>
          (case trySend (sendCh (inbound c)) f of
             Some ch \<Rightarrow> (None, c\<lparr>inbound := (inbound c)\<lparr>sendCh := ch\<rparr>\<rparr>)
           | None \<Rightarrow> (Some ErrSendBufferFull, c)))"

definition handleInitReq :: "ConnDeps \<Rightarrow> TChannelConnection \<Rightarrow> Frame \<Rightarrow> TChannelConnection" where
  "handleInitReq cd c fr =
     (case InitReq_read cd (SizedPayload fr) of
        Inl e \<Rightarrow> connectionError c
      | Inr req \<Rightarrow>
          if Version req \<noteq> CurrentProtocolVersion then connectionError c
          else (let c1 = c\<lparr>remotePeerInfo := \<lparr>HostPort = InitParamHostPort req,
                                                ProcessName = InitParamProcessName req\<rparr>\<rparr>
                in case sendMessage c1 (Id fr) MessageTypeInitRes
                          (InitRes_write cd
                             \<lparr>init_id = Id fr, Version = CurrentProtocolVersion,
                              InitParamHostPort = HostPort (localPeerInfo c1),
                              InitParamProcessName = ProcessName (localPeerInfo c1)\<rparr>) of
                     (Some e, c2) \<Rightarrow> connectionError c2
                   | (None, c2) \<Rightarrow>
                       if conn_state c2 = connectionWaitingToRecvInitReq
                       then c2\<lparr>conn_state := connectionActive\<rparr> else c2))"

definition handleInitRes :: "ConnDeps \<Rightarrow> TChannelConnection \<Rightarrow> Frame \<Rightarrow> TChannelConnection" where
  "handleInitRes cd c fr =
     (case conn_state c of
        connectionWaitingToRecvInitRes \<Rightarrow> forwardResFrame cd c fr
      | _ \<Rightarrow> connectionError c)"

text \<open>
  The body of the loop of \<open>readFrames\<close> once a frame has been read from the network: the
  switch on the type of the frame. The result is the connection left behind and the
  call for which a goroutine was started, if any.
\<close>

definition readFrames_dispatch ::
  "'e Deps \<Rightarrow> ConnDeps \<Rightarrow> TChannelConnection \<Rightarrow> Frame \<Rightarrow> TChannelConnection \<times> InboundCall option" where
  "readFrames_dispatch d cd c fr =
     (case Type fr of
        MessageTypeCallReq \<Rightarrow>
          (case handleCallReq d (inbound c) fr of (p, spawned) \<Rightarrow> (c\<lparr>inbound := p\<rparr>, spawned))
      | MessageTypeCallReqContinue \<Rightarrow> (c\<lparr>inbound := handleCallReqContinue (inbound c) fr\<rparr>, None)
      | MessageTypeCallRes \<Rightarrow> (handleCallRes cd c fr, None)
      | MessageTypeCallResContinue \<Rightarrow> (handleCallResContinue cd c fr, None)
      | MessageTypeInitReq \<Rightarrow> (handleInitReq cd c fr, None)
      | MessageTypeInitRes \<Rightarrow> (handleInitRes cd c fr, None)
      | MessageTypeError \<Rightarrow> (handleError cd c fr, None)
      | MessageTypeOther t \<Rightarrow> (c, None))"

section \<open>The frame handler of the Node variant (v2 handler, reqres.js)\<close>

datatype States = StatesInitial | StatesStreaming | StatesDone

record JsChecksum =
  csum_type :: nat
  csum_val :: nat

datatype JsType =
    InitRequest | InitResponse | CallRequest | CallResponse
  | CallRequestCont | CallResponseCont | ErrorResponse | UnknownType nat

text \<open>A frame: its id and the fields of its body that the handler reads.\<close>

record JsFrame =
  frame_id :: nat
  body_type :: JsType
  body_flags :: nat
  body_csum :: JsChecksum
  body_args :: "byte list list"
  body_host_port :: string
  body_code :: nat

text \<open>
  An incoming request or response: its argument streams, its state, its id and the
  checksum of the last frame taken. Its listener on \<open>finish\<close> sets the state to \<open>Done\<close>.
\<close>

record Incoming =
  argStream :: InArgStream
  in_state :: States
  in_id :: nat
  in_checksum :: JsChecksum

datatype event =
    init_request string
  | init_response string
  | call_incoming_request Incoming
  | call_incoming_response Incoming
  | call_incoming_error nat nat

record TChannelV2Handler =
  remoteHostPort :: "string option"
  lastSentFrameId :: nat
  streamingReq :: "nat \<rightharpoonup> Incoming"
  streamingRes :: "nat \<rightharpoonup> Incoming"
  emitted :: "event list"
  pushed :: "JsFrame list"

definition FlagsFragment :: nat where
  "FlagsFragment = 1"

definition hasFragmentFlag :: "nat \<Rightarrow> bool" where
  "hasFragmentFlag fl = odd fl"

text \<open>\<open>r.handleFrame(parts)\<close> on an incoming request or response, with the listener on \<open>finish\<close>.\<close>

definition Incoming_handleFrame :: "Incoming \<Rightarrow> byte list list option \<Rightarrow> jsError + Incoming" where
  "Incoming_handleFrame r parts =
     (case handleFrame (argStream r) parts of
        Inl e \<Rightarrow> Inl e
      | Inr st \<Rightarrow>
          Inr (r\<lparr>argStream := st,
                  in_state := (if finished st \<and> \<not> finished (argStream r) then StatesDone else in_state r)\<rparr>))"

text \<open>\<open>buildIncomingRequest\<close> and \<open>buildIncomingResponse\<close>, which differ in the fields they copy only.\<close>

definition buildIncoming :: "JsFrame \<Rightarrow> jsError + Incoming" where
  "buildIncoming fr =
     (let r = \<lparr>argStream = newInArgStream, in_state = StatesInitial, in_id = frame_id fr,
               in_checksum = body_csum fr\<rparr>
      in case Incoming_handleFrame r (Some (body_args fr)) of
           Inl e \<Rightarrow> Inl e
         | Inr r1 \<Rightarrow>
             if hasFragmentFlag (body_flags fr) then Inr (r1\<lparr>in_state := StatesStreaming\<rparr>)
             else Incoming_handleFrame r1 None)"

definition continueStream :: "Incoming \<Rightarrow> JsFrame \<Rightarrow> jsError + Incoming" where
  "continueStream r fr =
     (case Incoming_handleFrame r (Some (body_args fr)) of
        Inl e \<Rightarrow> Inl e
      | Inr r1 \<Rightarrow>
          if \<not> hasFragmentFlag (body_flags fr) then Incoming_handleFrame r1 None else Inr r1)"

text \<open>
  The handlers. Each returns what its callback is called with (\<open>None\<close> for no error; an
  exception thrown on the way counts as an error) and the handler left behind.
  \<open>verify\<close> is \<open>verifyChecksum\<close> of a frame body, whose code is outside the files at hand:
  from the checksum of the frame, its arguments and the prior value it yields an error
  or none.
\<close>

type_synonym verifier = "JsChecksum \<Rightarrow> byte list list \<Rightarrow> nat option \<Rightarrow> jsError option"

definition handleInitRequest :: "TChannelV2Handler \<Rightarrow> JsFrame \<Rightarrow> jsError option \<times> TChannelV2Handler" where
  "handleInitRequest h fr =
     (if remoteHostPort h \<noteq> None then (Some (JsError ''duplicate init request''), h)
      else (None, h\<lparr>remoteHostPort := Some (body_host_port fr),
                     emitted := emitted h @ [init_request (body_host_port fr)],
                     pushed := pushed h @ [fr\<lparr>body_type := InitResponse\<rparr>]\<rparr>))"

definition handleInitResponse :: "TChannelV2Handler \<Rightarrow> JsFrame \<Rightarrow> jsError option \<times> TChannelV2Handler" where
  "handleInitResponse h fr =
     (if remoteHostPort h \<noteq> None then (Some (JsError ''duplicate init response''), h)
      else (None, h\<lparr>remoteHostPort := Some (body_host_port fr),
                     emitted := emitted h @ [init_response (body_host_port fr)]\<rparr>))"

definition handleCallRequest :: "verifier \<Rightarrow> TChannelV2Handler \<Rightarrow> JsFrame \<Rightarrow> jsError option \<times> TChannelV2Handler" where
  "handleCallRequest verify h fr =
     (if remoteHostPort h = None then (Some (JsError ''call request before init request''), h)
      else (case verify (body_csum fr) (body_args fr) None of
              Some e \<Rightarrow> (Some e, h)
            | None \<Rightarrow>
                (case buildIncoming fr of
                   Inl e \<Rightarrow> (Some e, h)
                 | Inr req0 \<Rightarrow>
                     (let req = req0\<lparr>in_checksum := body_csum fr\<rparr>
                      in (None, h\<lparr>streamingReq :=
                                     (if in_state req = StatesStreaming
                                      then (streamingReq h)(in_id req \<mapsto> req) else streamingReq h),
                                   emitted := emitted h @ [call_incoming_request req]\<rparr>)))))"

definition handleCallResponse :: "verifier \<Rightarrow> TChannelV2Handler \<Rightarrow> JsFrame \<Rightarrow> jsError option \<times> TChannelV2Handler" where
  "handleCallResponse verify h fr =
     (if remoteHostPort h = None then (Some (JsError ''call response before init response''), h)
      else (case verify (body_csum fr) (body_args fr) None of
              Some e \<Rightarrow> (Some e, h)
            | None \<Rightarrow>
                (case buildIncoming fr of
                   Inl e \<Rightarrow> (Some e, h)
                 | Inr res0 \<Rightarrow>
                     (let res = res0\<lparr>in_checksum := body_csum fr\<rparr>
                      in (None, h\<lparr>streamingRes :=
                                     (if in_state res = StatesStreaming
                                      then (streamingRes h)(in_id res \<mapsto> res) else streamingRes h),
                                   emitted := emitted h @ [call_incoming_response res]\<rparr>)))))"

text \<open>
  The part that \<open>handleCallRequestCont\<close> and \<open>handleCallResponseCont\<close> share once the
  request or response \<open>r\<close> has been found: the result is the error, if any, and \<open>r\<close> as it
  is left.
\<close>

definition handleCont :: "verifier \<Rightarrow> Incoming \<Rightarrow> JsFrame \<Rightarrow> jsError option \<times> Incoming" where
  "handleCont verify r fr =
     (if csum_type (in_checksum r) \<noteq> csum_type (body_csum fr)
      then (Some (JsError ''checksum type changed mid-tream''), r)
      else (case verify (body_csum fr) (body_args fr) (Some (csum_val (in_checksum r))) of
              Some e \<Rightarrow> (Some e, r)
            | None \<Rightarrow>
                (let r1 = r\<lparr>in_checksum := body_csum fr\<rparr>
                 in case in_state r1 of
                      StatesInitial \<Rightarrow> (Some (JsError ''got cont to initial req''), r1)
                    | StatesStreaming \<Rightarrow>
                        (case continueStream r1 fr of
                           Inl e \<Rightarrow> (Some e, r1)
                         | Inr r2 \<Rightarrow> (None, r2))
                    | StatesDone \<Rightarrow> (Some (JsError ''got cont to done req''), r1))))"

definition handleCallRequestCont :: "verifier \<Rightarrow> TChannelV2Handler \<Rightarrow> JsFrame \<Rightarrow> jsError option \<times> TChannelV2Handler" where
  "handleCallRequestCont verify h fr =
     (if remoteHostPort h = None then (Some (JsError ''call request cont before init request''), h)
      else (case streamingReq h (frame_id fr) of
              None \<Rightarrow> (Some (JsError ''call request cont for unknown request''), h)
            | Some req \<Rightarrow>
                (case handleCont verify req fr of
                   (e, req1) \<Rightarrow> (e, h\<lparr>streamingReq := (streamingReq h)(frame_id fr \<mapsto> req1)\<rparr>))))"

definition handleCallResponseCont :: "verifier \<Rightarrow> TChannelV2Handler \<Rightarrow> JsFrame \<Rightarrow> jsError option \<times> TChannelV2Handler" where
  "handleCallResponseCont verify h fr =
     (if remoteHostPort h = None then (Some (JsError ''call response cont before init response''), h)
      else (case streamingRes h (frame_id fr) of
              None \<Rightarrow> (Some (JsError ''call response cont for unknown response''), h)
            | Some res \<Rightarrow>
                (case handleCont verify res fr of
                   (e, res1) \<Rightarrow> (e, h\<lparr>streamingRes := (streamingRes h)(frame_id fr \<mapsto> res1)\<rparr>))))"

text \<open>
  \<open>handleError\<close>: an error frame with the id \<open>v2.Frame.NullId\<close> (declared outside the files
  at hand, a parameter here) is fatal; any other is emitted as an event.
\<close>

definition handleErrorFrame :: "nat \<Rightarrow> TChannelV2Handler \<Rightarrow> JsFrame \<Rightarrow> jsError option \<times> TChannelV2Handler" where
  "handleErrorFrame NullId h fr =
     (if frame_id fr = NullId then (Some (JsError ''error response''), h)
      else (None, h\<lparr>emitted := emitted h @ [call_incoming_error (frame_id fr) (body_code fr)]\<rparr>))"

text \<open>\<open>_write\<close>: the switch on the type of the frame.\<close>

definition handler_write :: "verifier \<Rightarrow> nat \<Rightarrow> TChannelV2Handler \<Rightarrow> JsFrame \<Rightarrow> jsError option \<times> TChannelV2Handler" where
  "handler_write verify NullId h fr =
     (case body_type fr of
        InitRequest \<Rightarrow> handleInitRequest h fr
      | InitResponse \<Rightarrow> handleInitResponse h fr
      | CallRequest \<Rightarrow> handleCallRequest verify h fr
      | CallResponse \<Rightarrow> handleCallResponse verify h fr
      | CallRequestCont \<Rightarrow> handleCallRequestCont verify h fr
      | CallResponseCont \<Rightarrow> handleCallResponseCont verify h fr
      | ErrorResponse \<Rightarrow> handleErrorFrame NullId h fr
      | UnknownType t \<Rightarrow> (Some (JsError ''unhandled frame type''), h))"

text \<open>A connection in the state \<open>st\<close> around the pipeline of the instance, and handlers that do nothing.\<close>

definition exConn :: "connectionState \<Rightarrow> TChannelConnection" where
  "exConn st =
     \<lparr>conn_state = st, inbound = exPipeline 512 16,
      localPeerInfo = \<lparr>HostPort = ''127.0.0.1:4040'', ProcessName = ''local''\<rparr>,
      remotePeerInfo = \<lparr>HostPort = [], ProcessName = []\<rparr>,
      netClosed = False\<rparr>"

definition exConnDeps :: ConnDeps where
  "exConnDeps =
     \<lparr>handleCallRes = (\<lambda>c fr. c), handleCallResContinue = (\<lambda>c fr. c),
      handleError = (\<lambda>c fr. c), forwardResFrame = (\<lambda>c fr. c),
      InitReq_read = (\<lambda>bs. Inl ErrMessage), InitRes_write = (\<lambda>m. Inl ErrMessage)\<rparr>"

text \<open>A call request with id 7 whose only fragment carries the chunk \<open>[1, 2]\<close>.\<close>

definition exCallReqFrame :: Frame where
  "exCallReqFrame = \<lparr>Id = 7, Type = MessageTypeCallReq, Size = 6, Payload = [0, 0, 0, 2, 1, 2]\<rparr>"

text \<open>A handler of the Node variant that has seen no init frame, and a frame of type \<open>t\<close> with three parts.\<close>

definition exHandler :: TChannelV2Handler where
  "exHandler =
     \<lparr>remoteHostPort = None, lastSentFrameId = 0, streamingReq = Map.empty,
      streamingRes = Map.empty, emitted = [], pushed = []\<rparr>"

definition exJsFrame :: "JsType \<Rightarrow> JsFrame" where
  "exJsFrame t =
     \<lparr>frame_id = 1, body_type = t, body_flags = 0, body_csum = \<lparr>csum_type = 0, csum_val = 0\<rparr>,
      body_args = [[1], [2], [3]], body_host_port = [], body_code = 0\<rparr>"

text \<open>
  The call that the pipeline of the instance builds from a first frame \<open>f1\<close>, with the
  continuation frame \<open>f2\<close> queued behind it.
\<close>

definition exReceive :: "Frame \<Rightarrow> Frame \<Rightarrow> rstate" where
  "exReceive f1 f2 =
     (let r = handleCallReq exDeps (exPipeline 512 16) f1
      in (the (snd r), handleCallReqContinue (fst r) f2))"

text \<open>
  A message of two fragments with checksums of type 1. The first fragment carries the
  chunk \<open>[1, 2]\<close> and declares the digest 3 over it. The second carries the chunks \<open>[3]\<close>,
  \<open>[4]\<close> and \<open>[5]\<close>: \<open>exSeededFrame\<close> declares the digest 15 over all the bytes of the message
  so far, as a sender that carries its digest state from fragment to fragment does;
  \<open>exUnseededFrame\<close> declares the digest 12 over its own chunks alone; \<open>exTypeChangeFrame\<close>
  declares the checksum type 0, which has no checksum bytes.
\<close>

definition exFirstFrame :: Frame where
  "exFirstFrame =
     \<lparr>Id = 7, Type = MessageTypeCallReq, Size = 10, Payload = [1, 1, 0, 0, 0, 3, 0, 2, 1, 2]\<rparr>"

definition exSeededFrame :: Frame where
  "exSeededFrame =
     \<lparr>Id = 7, Type = MessageTypeCallReqContinue, Size = 15,
      Payload = [0, 1, 0, 0, 0, 15, 0, 1, 3, 0, 1, 4, 0, 1, 5]\<rparr>"

definition exUnseededFrame :: Frame where
  "exUnseededFrame =
     \<lparr>Id = 7, Type = MessageTypeCallReqContinue, Size = 15,
      Payload = [0, 1, 0, 0, 0, 12, 0, 1, 3, 0, 1, 4, 0, 1, 5]\<rparr>"

definition exTypeChangeFrame :: Frame where
  "exTypeChangeFrame =
     \<lparr>Id = 7, Type = MessageTypeCallReqContinue, Size = 11,
      Payload = [0, 0, 0, 1, 3, 0, 1, 4, 0, 1, 5]\<rparr>"

section \<open>Writing three arguments and reading them back\<close>

text \<open>
  The three arguments written in order, each ended, the message ended after the third;
  the frames handed to a pipeline, the first as the call request and the others as its
  continuations; the three arguments read in order from the call, up to the first
  failure; and the whole trip, from the arguments written to the arguments read.
\<close>

definition writeArgs :: "'e Deps \<Rightarrow> wstate \<Rightarrow> byte list \<Rightarrow> byte list \<Rightarrow> byte list \<Rightarrow> error option \<times> wstate" where
  "writeArgs d s a1 a2 a3 =
     (case WritePart d s a1 False of
        (Some e, s1) \<Rightarrow> (Some e, s1)
      | (None, s1) \<Rightarrow>
          (case WritePart d s1 a2 False of
             (Some e, s2) \<Rightarrow> (Some e, s2)
           | (None, s2) \<Rightarrow> WritePart d s2 a3 True))"

definition receiveFrames :: "'e Deps \<Rightarrow> inboundCallPipeline \<Rightarrow> Frame list \<Rightarrow> rstate option" where
  "receiveFrames d p frs =
     (case frs of
        [] \<Rightarrow> None
      | fr # rest \<Rightarrow>
          (case handleCallReq d p fr of
             (p1, None) \<Rightarrow> None
           | (p1, Some call) \<Rightarrow> Some (call, foldl handleCallReqContinue p1 rest)))"

definition readArgs :: "'e Deps \<Rightarrow> rstate \<Rightarrow> status \<times> byte list list" where
  "readArgs d s =
     (case readOperation d s of
        (NoError, s1) \<Rightarrow>
          (case ReadArg2 d s1 of
             ((NoError, a2), s2) \<Rightarrow>
               (case ReadArg3 d s2 of
                  ((NoError, a3), s3) \<Rightarrow> (NoError, [operation (fst s1), a2, a3])
                | ((st, a3), s3) \<Rightarrow> (st, [operation (fst s1), a2]))
           | ((st, a2), s2) \<Rightarrow> (st, [operation (fst s1)]))
      | (st, s1) \<Rightarrow> (st, []))"

definition roundTrip ::
  "'e Deps \<Rightarrow> wstate \<Rightarrow> inboundCallPipeline \<Rightarrow> byte list \<Rightarrow> byte list \<Rightarrow> byte list
     \<Rightarrow> error + (status \<times> byte list list)" where
  "roundTrip d s p a1 a2 a3 =
     (case writeArgs d s a1 a2 a3 of
        (Some e, s1) \<Rightarrow> Inl e
      | (None, s1) \<Rightarrow>
          (case receiveFrames d p (buf (sendCh (snd s1))) of
             None \<Rightarrow> Inl ErrMessage
           | Some rs \<Rightarrow> Inr (readArgs d rs)))"





section \<open>Properties\<close>






lemma NextMessageIds_eq:
  "NextMessageIds n c = (map (\<lambda>k. c + word_of_nat (Suc k)) [0..<n], c + word_of_nat n)"
proof (induction n arbitrary: c)
  case 0
  show ?case by simp
next
  case (Suc n)
  have "[Suc 0..<Suc n] = map Suc [0..<n]"
    by (simp only: map_Suc_upt)
  then have "map (\<lambda>k. c + word_of_nat (Suc k)) [Suc 0..<Suc n]
      = map (\<lambda>k. c + 1 + word_of_nat (Suc k)) [0..<n]"
    by (simp add: add.assoc add.commute del: upt_Suc)
  then show ?case
    using Suc by (simp add: NextMessageId_def upt_rec [of 0 "Suc n"] add.assoc del: upt_Suc)
qed

lemma nextFrameIds_eq:
  "fst (nextFrameIds M n l) = map (\<lambda>k. (l + Suc k) mod M) [0..<n]"
proof (induction n arbitrary: l)
  case 0
  show ?case by simp
next
  case (Suc n)
  have a: "[Suc 0..<Suc n] = map Suc [0..<n]"
    by (simp only: map_Suc_upt)
  have b: "\<And>k. ((l + 1) mod M + Suc k) mod M = (l + Suc (Suc k)) mod M"
    by (metis mod_add_left_eq add_Suc_right add_Suc_shift Suc_eq_plus1)
  have "map (\<lambda>k. (l + Suc k) mod M) [Suc 0..<Suc n]
      = map (\<lambda>k. ((l + 1) mod M + Suc k) mod M) [0..<n]"
    unfolding a by (simp only: map_map o_def b)
  then show ?case
    using Suc [of "(l + 1) mod M"]
    by (simp add: nextFrameId_def upt_rec [of 0 "Suc n"] split_beta Let_def del: upt_Suc)
qed

lemma word32_of_nat_inj:
  assumes "a < 2 ^ 32" "b < 2 ^ 32" "(word_of_nat a :: 32 word) = word_of_nat b"
  shows "a = b"
  using assms by (simp add: word_of_nat_eq_iff take_bit_nat_eq_self)

text \<open>
  Claim C4, as the code has it. On a new connection the first \<open>n\<close> ids (\<open>n < 2^32\<close>) are
  \<open>1, 2, ..., n\<close>: the first is 1, they are pairwise distinct and none is 0. The counter is
  not kept away from 0 at the wrap: the \<open>2^32\<close>-th id is 0. The Node counter behaves alike
  with \<open>MaxId\<close> in place of \<open>2^32\<close>: its first \<open>m < MaxId\<close> ids are \<open>1, ..., m\<close> and the
  \<open>MaxId\<close>-th id is 0.
\<close>

theorem message_ids_until_wrap:
  assumes "n < 2 ^ 32" and "1 < MaxId" and "m < MaxId"
  shows "fst (NextMessageIds n newConnection_nextMessageId) = map (\<lambda>k. word_of_nat (Suc k)) [0..<n]
     \<and> distinct (fst (NextMessageIds n newConnection_nextMessageId))
     \<and> 0 \<notin> set (fst (NextMessageIds n newConnection_nextMessageId))
     \<and> fst (NextMessageIds (2 ^ 32) newConnection_nextMessageId) ! (2 ^ 32 - 1) = 0
     \<and> fst (nextFrameIds MaxId m 0) = map Suc [0..<m]
     \<and> fst (nextFrameIds MaxId MaxId 0) ! (MaxId - 1) = 0"
proof -
  let ?ids = "fst (NextMessageIds n newConnection_nextMessageId)"
  have ids: "?ids = map (\<lambda>k. word_of_nat (Suc k)) [0..<n]"
    by (simp add: NextMessageIds_eq newConnection_nextMessageId_def)
  have inj: "inj_on (\<lambda>k. word_of_nat (Suc k) :: 32 word) {0..<n}"
  proof (rule inj_onI)
    fix x y assume "x \<in> {0..<n}" "y \<in> {0..<n}"
      and e: "(word_of_nat (Suc x) :: 32 word) = word_of_nat (Suc y)"
    then have "Suc x < 2 ^ 32" "Suc y < 2 ^ 32" using assms(1) by auto
    then have "Suc x = Suc y" using e by (rule word32_of_nat_inj)
    then show "x = y" by simp
  qed
  have d: "distinct ?ids"
    unfolding ids using inj by (simp only: distinct_map distinct_upt set_upt simp_thms)
  have nz: "0 \<notin> set ?ids"
  proof
    assume "0 \<in> set ?ids"
    then obtain k where k: "k < n" and z: "(word_of_nat (Suc k) :: 32 word) = 0"
      unfolding ids by auto
    have "Suc k < 2 ^ 32" using k assms(1) by simp
    moreover have "(0::nat) < 2 ^ 32" by simp
    moreover have "(word_of_nat (Suc k) :: 32 word) = word_of_nat 0" using z by simp
    ultimately have "Suc k = 0" by (rule word32_of_nat_inj)
    then show False by simp
  qed
  have wrap: "fst (NextMessageIds (2 ^ 32) newConnection_nextMessageId) ! (2 ^ 32 - 1) = 0"
    by (simp add: NextMessageIds_eq newConnection_nextMessageId_def del: upt_Suc)
  have js: "fst (nextFrameIds MaxId m 0) = map Suc [0..<m]"
    using assms(3) by (simp add: nextFrameIds_eq del: upt_Suc)
  have jswrap: "fst (nextFrameIds MaxId MaxId 0) ! (MaxId - 1) = 0"
    using assms(2) by (simp add: nextFrameIds_eq del: upt_Suc)
  show ?thesis using ids d nz wrap js jswrap by blast
qed

theorem message_ids_until_wrap_witness:
  "(3::nat) < 2 ^ 32 \<and> (1::nat) < 4 \<and> (2::nat) < 4
   \<and> fst (NextMessageIds 3 newConnection_nextMessageId) = [1, 2, 3]
   \<and> fst (nextFrameIds 4 2 0) = [1, 2]
   \<and> fst (nextFrameIds 4 4 0) ! 3 = 0"
  using message_ids_until_wrap [of 3 4 2] by (simp add: upt_rec)

text \<open>
  The claim as stated (the reserved id 0 is never produced) fails on \<open>2^32\<close> successive
  allocations: the last of them is 0.
\<close>

theorem message_id_zero_counterexample:
  "last (fst (NextMessageIds (2 ^ 32) newConnection_nextMessageId)) = 0"
  by (simp add: NextMessageIds_eq newConnection_nextMessageId_def last_map del: upt_Suc)

lemma getFragment_setFragment [simp]: "getFragment (setFragment fo s) = fo"
  by (cases s) (simp add: getFragment_def setFragment_def)

lemma chunkOpen_beginChunk:
  "\<not> chunkOpen f \<Longrightarrow> canFitNewChunk f \<Longrightarrow> chunkOpen (snd (beginChunk f))"
  by (simp add: beginChunk_def chunkOpen_def canFitNewChunk_def)

lemma flushFragment_error:
  "flushFragment d s f lastF = (Some e, f1, s1) \<Longrightarrow> e = ErrSendBufferFull"
  by (cases s) (auto simp: flushFragment_def Let_def split: option.splits)

lemma finishFragment_error:
  "finishFragment d s lastF = (Some e, s1) \<Longrightarrow> e = ErrSendBufferFull \<or> e = PanicNilPointer"
  by (auto simp: finishFragment_def split: option.splits prod.splits dest: flushFragment_error)

lemma newOutboundFragment_error:
  "newOutboundFragment d fr msg cs = Inl e \<Longrightarrow> e = ErrBuffer \<or> e = PanicSliceBounds"
  by (auto simp: newOutboundFragment_def Let_def split: if_splits)

lemma beginFragment_error:
  "beginFragment d s = Inl e \<Longrightarrow> e = ErrBuffer \<or> e = PanicSliceBounds"
  by (cases s) (auto simp: beginFragment_def Let_def dest: newOutboundFragment_error)

lemma ensureOpenChunk_step_result:
  assumes "ensureOpenChunk_step d s = Inl (eo, s1)"
  shows "case eo of
           None \<Rightarrow> (\<exists>f. getFragment s1 = Some f \<and> chunkOpen f)
         | Some e \<Rightarrow> e \<in> {ErrBuffer, PanicSliceBounds, ErrSendBufferFull, PanicNilPointer}"
  using assms
  by (auto simp: ensureOpenChunk_step_def chunkOpen_beginChunk
        split: option.splits sum.splits if_splits prod.splits
        dest: beginFragment_error finishFragment_error)

lemma ensureOpenChunk_result:
  "ensureOpenChunk d s = (eo, s1) \<Longrightarrow>
     (case eo of
        None \<Rightarrow> (\<exists>f. getFragment s1 = Some f \<and> chunkOpen f)
      | Some e \<Rightarrow> e \<in> {ErrBuffer, PanicSliceBounds, ErrSendBufferFull, PanicNilPointer})"
proof (induction d s rule: ensureOpenChunk.induct)
  case (1 d s)
  show ?case
  proof (cases "ensureOpenChunk_step d s")
    case (Inl r)
    with "1.prems" have "ensureOpenChunk_step d s = Inl (eo, s1)"
      by (simp add: ensureOpenChunk.simps [of d s])
    then show ?thesis by (rule ensureOpenChunk_step_result)
  next
    case (Inr s2)
    with "1.prems" have "ensureOpenChunk d s2 = (eo, s1)"
      by (simp add: ensureOpenChunk.simps [of d s])
    with "1.IH" [OF Inr] show ?thesis .
  qed
qed

lemma writeChunkData_ok:
  "chunkOpen f \<Longrightarrow> length b \<le> bytesRemaining f \<Longrightarrow> snd (fst (writeChunkData f b)) = None"
  by (simp add: writeChunkData_def chunkOpen_def)

lemma Write_step_errors:
  assumes "Write_step d x = Inl ((k, Some e), s1)"
  shows "e \<in> {ErrBuffer, PanicSliceBounds, ErrSendBufferFull, PanicNilPointer}"
proof -
  obtain s b w where x: "x = (s, b, w)" by (cases x)
  obtain eo s0 where eo: "ensureOpenChunk d s = (eo, s0)" by (cases "ensureOpenChunk d s")
  note r = ensureOpenChunk_result [OF eo]
  show ?thesis
  proof (cases eo)
    case (Some e0)
    with assms x eo r show ?thesis
      by (auto simp: Write_step_def split: if_splits)
  next
    case None
    with r obtain f where f: "getFragment s0 = Some f" "chunkOpen f" by auto
    have w1: "snd (fst (writeChunkData f (take (bytesRemaining f) b))) = None"
      using f by (intro writeChunkData_ok) simp_all
    have w2: "\<not> bytesRemaining f < length b \<Longrightarrow> snd (fst (writeChunkData f b)) = None"
      using f by (intro writeChunkData_ok) simp_all
    from assms x eo None f w1 w2 show ?thesis
      by (auto simp: Write_step_def split: if_splits prod.splits option.splits
            dest: finishFragment_error)
  qed
qed

lemma Write_loop_errors:
  "Write_loop d x = ((k, Some e), s1) \<Longrightarrow>
     e \<in> {ErrBuffer, PanicSliceBounds, ErrSendBufferFull, PanicNilPointer}"
proof (induction d x rule: Write_loop.induct)
  case (1 d x)
  show ?case
  proof (cases "Write_step d x")
    case (Inl r)
    with "1.prems" have "Write_step d x = Inl ((k, Some e), s1)"
      by (simp add: Write_loop.simps [of d x])
    then show ?thesis by (rule Write_step_errors)
  next
    case (Inr x1)
    with "1.prems" have "Write_loop d x1 = ((k, Some e), s1)"
      by (simp add: Write_loop.simps [of d x])
    with "1.IH" [OF Inr] show ?thesis .
  qed
qed

text \<open>
  Claim C9. Whatever the state of the writer and the bytes written, \<open>Write\<close> returns
  neither \<open>errTooLarge\<close> nor \<open>errNoOpenChunk\<close>: \<open>ensureOpenChunk\<close> leaves a fragment with an
  open chunk, and both calls of \<open>writeChunkData\<close> pass at most \<open>bytesRemaining\<close> bytes, so
  neither error branch of \<open>writeChunkData\<close> is taken.
\<close>

theorem Write_never_errTooLarge_errNoOpenChunk:
  "snd (fst (multiPartWriter_Write d s b)) \<notin> {Some errTooLarge, Some errNoOpenChunk}"
proof -
  obtain k eo s1 where w: "multiPartWriter_Write d s b = ((k, eo), s1)"
    by (cases "multiPartWriter_Write d s b") auto
  have "eo \<noteq> Some errTooLarge \<and> eo \<noteq> Some errNoOpenChunk"
  proof (cases eo)
    case None
    then show ?thesis by simp
  next
    case (Some e)
    have "e \<in> {ErrWriteAfterComplete, ErrBuffer, PanicSliceBounds, ErrSendBufferFull, PanicNilPointer}"
      using w Some
      by (auto simp: multiPartWriter_Write_def
            split: if_splits prod.splits option.splits
            dest: Write_loop_errors finishFragment_error)
    with Some show ?thesis by auto
  qed
  with w show ?thesis by simp
qed

text \<open>
  Claim C10. \<open>SendSystemError\<close> returns nil in every case, leaves the response in state
  \<open>Complete\<close> and its context cancelled. When the error message cannot be marshalled, or
  when the send channel is full, nothing is sent: the send channel is as it was, the
  failure is logged, and the value returned is nil all the same.
\<close>

theorem SendSystemError_returns_nil:
  assumes "SendSystemError d (call, p) err = (r, (call1, p1))"
  shows "r = None \<and> res_state call1 = inboundCallResponseComplete \<and> res_cancelled call1
     \<and> ((\<exists>e. MarshalMessage (framePool p) (res_id call) MessageTypeError
                 (ErrorMessage_write d
                    \<lparr>em_id = res_id call, OriginalMessageId = res_id call,
                     ErrorCode = GetSystemErrorCode d err, Message = Error d err\<rparr>) = Inl e)
          \<longrightarrow> sendCh p1 = sendCh p \<and> log p1 = log p @ [''Could not create outbound frame''])
     \<and> (cap (sendCh p) \<le> length (buf (sendCh p))
          \<longrightarrow> sendCh p1 = sendCh p \<and> length (log p1) = Suc (length (log p)))"
  using assms
  by (auto simp: SendSystemError_def trySend_def Let_def split: sum.splits option.splits if_splits)

theorem SendSystemError_returns_nil_witness:
  "SendSystemError exDeps (exResponse 1, exPipeline 0 16) ''busy''
     = (None, (exResponse 1\<lparr>res_cancelled := True, res_state := inboundCallResponseComplete\<rparr>,
               exPipeline 0 16\<lparr>log := [''Could not send error frame'']\<rparr>))
   \<and> cap (sendCh (exPipeline 0 16)) \<le> length (buf (sendCh (exPipeline 0 16)))
   \<and> SendSystemError exDeps (exResponse 1, exPipeline 1 16) (replicate 256 CHR ''x'')
     = (None, (exResponse 1\<lparr>res_cancelled := True, res_state := inboundCallResponseComplete\<rparr>,
               exPipeline 1 16\<lparr>log := [''Could not create outbound frame'']\<rparr>))
   \<and> MarshalMessage (framePool (exPipeline 1 16)) (res_id (exResponse 1)) MessageTypeError
         (ErrorMessage_write exDeps
            \<lparr>em_id = res_id (exResponse 1), OriginalMessageId = res_id (exResponse 1),
             ErrorCode = GetSystemErrorCode exDeps (replicate 256 CHR ''x''),
             Message = Error exDeps (replicate 256 CHR ''x'')\<rparr>) = Inl ErrMessage"
proof -
  have a: "SendSystemError exDeps (exResponse 1, exPipeline 0 16) ''busy''
     = (None, (exResponse 1\<lparr>res_cancelled := True, res_state := inboundCallResponseComplete\<rparr>,
               exPipeline 0 16\<lparr>log := [''Could not send error frame'']\<rparr>))"
    by (simp add: SendSystemError_def exDeps_def exResponse_def exPipeline_def MarshalMessage_def
          trySend_def make_chan_def Let_def)
  have b: "SendSystemError exDeps (exResponse 1, exPipeline 1 16) (replicate 256 CHR ''x'')
     = (None, (exResponse 1\<lparr>res_cancelled := True, res_state := inboundCallResponseComplete\<rparr>,
               exPipeline 1 16\<lparr>log := [''Could not create outbound frame'']\<rparr>))"
    by (simp add: SendSystemError_def exDeps_def exResponse_def exPipeline_def MarshalMessage_def
          trySend_def make_chan_def Let_def)
  have c: "cap (sendCh (exPipeline 0 16)) \<le> length (buf (sendCh (exPipeline 0 16)))"
    by (simp add: exPipeline_def make_chan_def)
  have m: "MarshalMessage (framePool (exPipeline 1 16)) (res_id (exResponse 1)) MessageTypeError
         (ErrorMessage_write exDeps
            \<lparr>em_id = res_id (exResponse 1), OriginalMessageId = res_id (exResponse 1),
             ErrorCode = GetSystemErrorCode exDeps (replicate 256 CHR ''x''),
             Message = Error exDeps (replicate 256 CHR ''x'')\<rparr>) = Inl ErrMessage"
    by (simp add: exDeps_def MarshalMessage_def)
  from SendSystemError_returns_nil [OF a] SendSystemError_returns_nil [OF b] a b c m
  show ?thesis by blast
qed

text \<open>
  Claim C6, on the code. On an active connection, a continuation frame for a live id
  whose queue is full takes the call out of the registry and closes its channel, and
  the connection stays active with its network open, as the claim says; but the send
  channel is left as it was, so no Error frame with code Busy (nor any other frame) is
  sent, and nothing is logged.
\<close>

theorem handleCallReqContinue_queue_full:
  assumes "Type fr = MessageTypeCallReqContinue" and "conn_state c = connectionActive"
    and "activeReqChs (inbound c) (Id fr) = Some reqCh" and "chans (inbound c) reqCh = Some ch"
    and "cap ch \<le> length (buf ch)"
  shows "conn_state (fst (readFrames_dispatch d cd c fr)) = connectionActive
     \<and> netClosed (fst (readFrames_dispatch d cd c fr)) = netClosed c
     \<and> activeReqChs (inbound (fst (readFrames_dispatch d cd c fr))) (Id fr) = None
     \<and> chans (inbound (fst (readFrames_dispatch d cd c fr))) reqCh = Some (ch\<lparr>closed := True\<rparr>)
     \<and> sendCh (inbound (fst (readFrames_dispatch d cd c fr))) = sendCh (inbound c)
     \<and> log (inbound (fst (readFrames_dispatch d cd c fr))) = log (inbound c)"
  using assms
  by (simp add: readFrames_dispatch_def handleCallReqContinue_def trySend_def
        inboundCallComplete_def Let_def)

theorem handleCallReqContinue_queue_full_witness:
  "Type (exCallReqFrame\<lparr>Type := MessageTypeCallReqContinue\<rparr>) = MessageTypeCallReqContinue
   \<and> conn_state (exConn connectionActive\<lparr>inbound := exFullPipeline\<rparr>) = connectionActive
   \<and> activeReqChs exFullPipeline 7 = Some 0
   \<and> chans exFullPipeline 0
       = Some \<lparr>buf = replicate 512 (framePool (exPipeline 512 16)), cap = 512, closed = False\<rparr>
   \<and> conn_state (fst (readFrames_dispatch exDeps exConnDeps
          (exConn connectionActive\<lparr>inbound := exFullPipeline\<rparr>)
          (exCallReqFrame\<lparr>Type := MessageTypeCallReqContinue\<rparr>))) = connectionActive
   \<and> activeReqChs (inbound (fst (readFrames_dispatch exDeps exConnDeps
          (exConn connectionActive\<lparr>inbound := exFullPipeline\<rparr>)
          (exCallReqFrame\<lparr>Type := MessageTypeCallReqContinue\<rparr>)))) 7 = None
   \<and> buf (sendCh (inbound (fst (readFrames_dispatch exDeps exConnDeps
          (exConn connectionActive\<lparr>inbound := exFullPipeline\<rparr>)
          (exCallReqFrame\<lparr>Type := MessageTypeCallReqContinue\<rparr>))))) = []"
proof -
  let ?ch = "\<lparr>buf = replicate 512 (framePool (exPipeline 512 16)), cap = 512, closed = False\<rparr>"
  let ?fr = "exCallReqFrame\<lparr>Type := MessageTypeCallReqContinue\<rparr>"
  let ?c = "exConn connectionActive\<lparr>inbound := exFullPipeline\<rparr>"
  have t: "Type ?fr = MessageTypeCallReqContinue" by simp
  have st: "conn_state ?c = connectionActive" by (simp add: exConn_def)
  have a: "activeReqChs (inbound ?c) (Id ?fr) = Some 0"
    by (simp add: exFullPipeline_def exCallReqFrame_def)
  have b: "chans (inbound ?c) 0 = Some ?ch"
    by (simp add: exFullPipeline_def)
  have c: "cap ?ch \<le> length (buf ?ch)" by simp
  have s: "buf (sendCh (inbound ?c)) = []"
    by (simp add: exFullPipeline_def exPipeline_def make_chan_def)
  have i: "Id ?fr = 7" by (simp add: exCallReqFrame_def)
  from handleCallReqContinue_queue_full [OF t st a b c, of exDeps exConnDeps] t st a b s i
  show ?thesis by simp
qed

lemma alignsAtEnd_setFragment [simp]:
  "alignsAtEnd (partWriter (fst (setFragment fo s))) = alignsAtEnd (partWriter (fst s))"
  by (cases s) (simp add: setFragment_def)

lemma getFragment_setAlignsAtEnd [simp]: "getFragment (setAlignsAtEnd a s) = getFragment s"
  by (cases s) (simp add: getFragment_def setAlignsAtEnd_def)

lemma alignsAtEnd_setAlignsAtEnd [simp]:
  "alignsAtEnd (partWriter (fst (setAlignsAtEnd a s))) = a"
  by (cases s) (simp add: setAlignsAtEnd_def)






lemma take_drop_copyInto_same:
  "off + length src \<le> length arr \<Longrightarrow>
     take (length src) (drop off (copyInto off (length src) src arr)) = src"
  by (simp add: copyInto_def)







lemma Read_loop_Inl: "Read_step d x = Inl out \<Longrightarrow> Read_loop d x = out"
  by (simp add: Read_loop.simps [of d x])

lemma Read_loop_Inr: "Read_step d x = Inr x1 \<Longrightarrow> Read_loop d x = Read_loop d x1"
  by (simp add: Read_loop.simps [of d x])







lemma waitForFragment_receive:
  assumes "pendingChunks (call, p) = 0" and "\<not> recvLastFragment call" and "\<not> call_ctxDone call"
    and "chans p (recvCh call) = Some ch" and "buf ch = fr # frs"
    and "newInboundFragment d (CallReqContinue_read d) fr (call_checksum call) = Inr (frag, m)"
  shows "waitForFragment d (call, p) =
     (NoError, (call\<lparr>curFragment := Some frag, recvLastFragment := in_last frag\<rparr>,
                p\<lparr>chans := (chans p)(recvCh call \<mapsto> ch\<lparr>buf := frs\<rparr>)\<rparr>))"
  using assms
  by (auto simp: waitForFragment_def pendingChunks_def hasMoreChunks_def Let_def
        split: option.splits)




lemma Read_rest_of_chunk:
  assumes "chunk r \<noteq> []" and "length (chunk r) < n"
  shows "multiPartReader_Read d r s n = Read_loop d (r\<lparr>chunk := []\<rparr>, s, n - length (chunk r), chunk r)"
proof -
  have 1: "Read_step d (r, s, n, []) = Inr (r\<lparr>chunk := []\<rparr>, s, n - length (chunk r), chunk r)"
    using assms by (simp add: Read_step_def copyChunk_def Let_def min_def)
  show ?thesis
    unfolding multiPartReader_Read_def Read_loop_Inr [OF 1] ..
qed



text \<open>
  A zero-length chunk that is the only chunk of a fragment with more to follow does not
  end the argument: the first chunk of a fragment goes on with the argument at hand, here
  with no bytes, and with nothing else queued the reader waits for the next fragment.
\<close>

lemma Read_lone_zero_chunk:
  assumes "\<not> lastChunkInFragment r" and "length (chunk r) < n"
    and "pendingChunks (call, p) = 0" and "\<not> recvLastFragment call" and "\<not> call_ctxDone call"
    and "chans p (recvCh call) = Some ch" and "buf ch = [fr]" and "\<not> closed ch"
    and "newInboundFragment d (CallReqContinue_read d) fr (call_checksum call) = Inr (frag, m)"
    and "chunks frag = [[]]" and "\<not> in_last frag"
  shows "fst (multiPartReader_Read d r (call, p) n) = (chunk r, Waiting)"
proof -
  let ?call1 = "call\<lparr>curFragment := Some frag, recvLastFragment := in_last frag\<rparr>"
  let ?p1 = "p\<lparr>chans := (chans p)(recvCh call \<mapsto> ch\<lparr>buf := []\<rparr>)\<rparr>"
  let ?r1 = "r\<lparr>chunk := [], lastChunkInFragment := False\<rparr>"
  let ?s1 = "(?call1\<lparr>curFragment := Some (frag\<lparr>chunks := []\<rparr>)\<rparr>, ?p1)"
  note wf = waitForFragment_receive [OF assms(3-7,9)]
  have t: "takeChunk r' (?call1, ?p1) = (Inr (r'\<lparr>chunk := [], lastChunkInFragment := False\<rparr>), ?s1)" for r'
    using assms(10) by (simp add: takeChunk_def nextChunk_def hasMoreChunks_def)
  have w: "waitForFragment d ?s1 = (Waiting, ?s1)"
    using assms(4,5,8,11) by (simp add: waitForFragment_def hasMoreChunks_def)
  have loop: "fst (Read_loop d (r', (call, p), k, acc)) = (acc, Waiting)"
    if "chunk r' = []" "\<not> lastChunkInFragment r'" "0 < k" for r' k acc
  proof -
    have 1: "Read_step d (r', (call, p), k, acc)
        = Inr (r'\<lparr>chunk := [], lastChunkInFragment := False\<rparr>, ?s1, k, acc)"
      using that wf t [of r'] by (simp add: Read_step_def copyChunk_def)
    have 2: "Read_step d (r'\<lparr>chunk := [], lastChunkInFragment := False\<rparr>, ?s1, k, acc)
        = Inl ((acc, Waiting), r'\<lparr>chunk := [], lastChunkInFragment := False\<rparr>, ?s1)"
      using that(3) w by (simp add: Read_step_def)
    show ?thesis unfolding Read_loop_Inr [OF 1] Read_loop_Inl [OF 2] by simp
  qed
  show ?thesis
  proof (cases "chunk r = []")
    case True
    with assms(2) have "0 < n" by simp
    from loop [OF True assms(1) this, of "[]"] True show ?thesis
      by (simp add: multiPartReader_Read_def)
  next
    case False
    have "fst (Read_loop d (r\<lparr>chunk := []\<rparr>, (call, p), n - length (chunk r), chunk r))
        = (chunk r, Waiting)"
      by (rule loop) (use assms(1,2) in simp_all)
    then show ?thesis by (simp add: Read_rest_of_chunk [OF False assms(2)])
  qed
qed







lemma length_streams_endStream [simp]: "length (streams (endStream i st)) = length (streams st)"
  by (simp add: endStream_def Let_def)

lemma endRemaining_result:
  "length (streams (endRemaining st)) = length (streams st)
   \<and> iStream (endRemaining st) = max (iStream st) (length (streams st))
   \<and> (\<forall>i < length (streams st).
         streams (endRemaining st) ! i
           = (if iStream st \<le> i then (streams st ! i)\<lparr>ended := True\<rparr> else streams st ! i))"
proof (induction st rule: endRemaining.induct)
  case (1 st)
  show ?case
  proof (cases "iStream st < length (streams st)")
    case False
    then show ?thesis by (simp add: endRemaining.simps [of st])
  next
    case True
    let ?st1 = "(endStream (iStream st) st)\<lparr>iStream := iStream st + 1\<rparr>"
    note ih = "1.IH" [OF True]
    have e: "endRemaining st = endRemaining ?st1"
      using True by (simp add: endRemaining.simps [of st])
    have s1: "\<And>i. i < length (streams st) \<Longrightarrow>
        streams (endStream (iStream st) st) ! i
          = (if i = iStream st then (streams st ! i)\<lparr>ended := True\<rparr> else streams st ! i)"
      by (simp add: endStream_def Let_def nth_list_update)
    have l1: "length (streams ?st1) = length (streams st)" by simp
    have i1: "iStream ?st1 = iStream st + 1" by simp
    from ih True show ?thesis
      unfolding e l1 i1 by (auto simp: s1 le_Suc_eq not_less_eq_eq)
  qed
qed

lemma endPart_last_part:
  "chunk r = [] \<Longrightarrow> lastPartInMessage r \<Longrightarrow> multiPartReader_endPart d r s = (NoError, r, s)"
  by (simp add: multiPartReader_endPart_def)

lemma endPart_no_more_fragments:
  assumes "chunk r = []" and "\<not> lastChunkInFragment r" and "\<not> lastPartInMessage r"
    and "recvLastFragment call" and "pendingChunks (call, p) = 0"
  shows "fst (multiPartReader_endPart d r (call, p)) = Failed EOF"
  using assms
  by (auto simp: multiPartReader_endPart_def waitForFragment_def failed_def pendingChunks_def
        hasMoreChunks_def split: option.splits)

text \<open>
  Claim C7, as the code has it. Neither reader compares an argument index with 3, and
  there is no incomplete-message error. Node: \<open>handleFrame(null)\<close>, called once the
  terminal fragment is handled, never fails, whatever the number of arguments
  delivered: it ends every stream from the current one on and leaves the others as they
  are. Go: \<open>endPart\<close> of the last argument succeeds without looking at the fragment;
  \<open>endPart\<close> of an earlier argument, when the terminal fragment has been received and
  holds no further chunk, fails with \<open>io.EOF\<close>.
\<close>

theorem terminal_fragment_without_argument_count:
  "handleFrame st None = Inr (endRemaining st)
   \<and> (\<forall>i < length (streams st).
         streams (endRemaining st) ! i
           = (if iStream st \<le> i then (streams st ! i)\<lparr>ended := True\<rparr> else streams st ! i))
   \<and> (chunk r = [] \<and> lastPartInMessage r \<longrightarrow> multiPartReader_endPart d r s = (NoError, r, s))
   \<and> (chunk r' = [] \<and> \<not> lastChunkInFragment r' \<and> \<not> lastPartInMessage r'
        \<and> recvLastFragment call \<and> pendingChunks (call, p) = 0
        \<longrightarrow> fst (multiPartReader_endPart d r' (call, p)) = Failed EOF)"
  using endRemaining_result [of st] endPart_last_part [of r d s]
    endPart_no_more_fragments [of r' call p d]
  by (simp add: handleFrame_def)

text \<open>
  The claim as stated fails on a message whose only fragment carries one argument: the
  Node reader takes the part \<open>[1, 2]\<close> as arg1 and, the fragment being the terminal one,
  ends all three streams without any error, arg2 and arg3 empty.
\<close>

theorem incomplete_message_counterexample:
  "handleFrame newInArgStream (Some [[1, 2]]) = Inr exOneArgStream
   \<and> handleFrame exOneArgStream None
       = Inr \<lparr>streams = [\<lparr>started = True, ended = True, written = [[1, 2]]\<rparr>,
                          \<lparr>started = False, ended = True, written = []\<rparr>,
                          \<lparr>started = False, ended = True, written = []\<rparr>],
               iStream = 3, finished = True\<rparr>"
  by (simp add: handleFrame_def newInArgStream_def exOneArgStream_def newStreamArg_def
        writeStream_def endRemaining.simps endStream_def Let_def)

theorem terminal_fragment_without_argument_count_witness:
  "handleFrame exOneArgStream None = Inr (endRemaining exOneArgStream)
   \<and> (2::nat) < length (streams exOneArgStream) \<and> iStream exOneArgStream \<le> 2
   \<and> streams (endRemaining exOneArgStream) ! 2 = \<lparr>started = False, ended = True, written = []\<rparr>
   \<and> chunk (newMultiPartReader True) = [] \<and> lastPartInMessage (newMultiPartReader True)
   \<and> multiPartReader_endPart exDeps (newMultiPartReader True) exOneChunkCall
        = (NoError, newMultiPartReader True, exOneChunkCall)
   \<and> recvLastFragment (fst exOneChunkCall) \<and> pendingChunks exOneChunkCall = 0
   \<and> fst (multiPartReader_endPart exDeps (newMultiPartReader False) exOneChunkCall) = Failed EOF"
proof -
  have c: "recvLastFragment (fst exOneChunkCall) \<and> pendingChunks exOneChunkCall = 0"
    by (simp add: exOneChunkCall_def handleCallReq_def newInboundFragment_def exDeps_def
          exPipeline_def Let_def Uint16_def Checksum_New_def Checksum_Sum_def Checksum_Add_def
          flagMoreFragments_def pendingChunks_def)
  have r: "chunk (newMultiPartReader True) = [] \<and> lastPartInMessage (newMultiPartReader True)
      \<and> chunk (newMultiPartReader False) = [] \<and> \<not> lastChunkInFragment (newMultiPartReader False)
      \<and> \<not> lastPartInMessage (newMultiPartReader False)"
    by (simp add: newMultiPartReader_def)
  have s: "(2::nat) < length (streams exOneArgStream) \<and> iStream exOneArgStream \<le> 2
      \<and> streams exOneArgStream ! 2 = newStreamArg"
    by (simp add: exOneArgStream_def)
  from terminal_fragment_without_argument_count
    [of exOneArgStream "newMultiPartReader True" exDeps exOneChunkCall "newMultiPartReader False"
        "fst exOneChunkCall" "snd exOneChunkCall"] c r s
  show ?thesis by (simp add: newStreamArg_def)
qed

lemma handleCallReq_registered: "activeReqChs (fst (handleCallReq d p fr)) (Id fr) \<noteq> None"
  by (auto simp: handleCallReq_def Let_def split: sum.splits prod.splits)

text \<open>
  Claim C5, as the code has it. Go: in every state of the connection, also before
  \<open>Active\<close>, the reader loop hands a call request to \<open>handleCallReq\<close> and a continuation
  to \<open>handleCallReqContinue\<close>; the state of the connection is not changed and the network
  is not closed. After a call request its id is in the registry. The call is started, in
  the state \<open>PreRead\<close> and on the first fragment as decoded, when the id was not in the
  registry before and the first fragment decodes; when the id was there already, or the
  frame does not decode, no call is started, and for an id that was there the registry
  is left as it was. A call response, the continuation of one and an error frame are
  handed to \<open>handleCallRes\<close>, \<open>handleCallResContinue\<close> and \<open>handleError\<close> in every state,
  and a frame of a type that the switch does not know is dropped, the connection left as
  it is. An \<open>InitRes\<close> received in any state but \<open>WaitingToRecvInitRes\<close> closes the
  connection. Node: before the init frame of the peer has been handled (\<open>remoteHostPort\<close>
  is null) a call request, a call response or a continuation is answered with an error
  and leaves the handler as it was.
\<close>

theorem frames_before_Active:
  assumes "Type fr1 = MessageTypeCallReq" and "Type fr2 = MessageTypeCallReqContinue"
    and "Type fr3 = MessageTypeInitRes" and "conn_state c3 \<noteq> connectionWaitingToRecvInitRes"
    and "Type fr4 = MessageTypeCallRes" and "Type fr5 = MessageTypeCallResContinue"
    and "Type fr6 = MessageTypeError" and "Type fr7 = MessageTypeOther t"
    and "remoteHostPort h = None"
    and "body_type jf \<in> {CallRequest, CallResponse, CallRequestCont, CallResponseCont}"
  shows "conn_state (fst (readFrames_dispatch d cd c fr1)) = conn_state c
     \<and> netClosed (fst (readFrames_dispatch d cd c fr1)) = netClosed c
     \<and> inbound (fst (readFrames_dispatch d cd c fr1)) = fst (handleCallReq d (inbound c) fr1)
     \<and> snd (readFrames_dispatch d cd c fr1) = snd (handleCallReq d (inbound c) fr1)
     \<and> activeReqChs (inbound (fst (readFrames_dispatch d cd c fr1))) (Id fr1) \<noteq> None
     \<and> (activeReqChs (inbound c) (Id fr1) = None
          \<and> newInboundFragment d (CallReq_read d) fr1 None = Inr (frag, req) \<longrightarrow>
          (\<exists>call. snd (readFrames_dispatch d cd c fr1) = Some call
             \<and> call_id call = Id fr1 \<and> call_state call = inboundCallPreRead
             \<and> curFragment call = Some frag \<and> recvLastFragment call = in_last frag
             \<and> activeReqChs (inbound (fst (readFrames_dispatch d cd c fr1))) (Id fr1)
                 = Some (recvCh call)))
     \<and> (activeReqChs (inbound c) (Id fr1) \<noteq> None
          \<or> (\<exists>e. newInboundFragment d (CallReq_read d) fr1 None = Inl e) \<longrightarrow>
          snd (readFrames_dispatch d cd c fr1) = None)
     \<and> (activeReqChs (inbound c) (Id fr1) \<noteq> None \<longrightarrow>
          activeReqChs (inbound (fst (readFrames_dispatch d cd c fr1))) = activeReqChs (inbound c))
     \<and> readFrames_dispatch d cd c fr2 = (c\<lparr>inbound := handleCallReqContinue (inbound c) fr2\<rparr>, None)
     \<and> readFrames_dispatch d cd c fr4 = (handleCallRes cd c fr4, None)
     \<and> readFrames_dispatch d cd c fr5 = (handleCallResContinue cd c fr5, None)
     \<and> readFrames_dispatch d cd c fr6 = (handleError cd c fr6, None)
     \<and> readFrames_dispatch d cd c fr7 = (c, None)
     \<and> conn_state (fst (readFrames_dispatch d cd c3 fr3)) = connectionClosed
     \<and> (\<exists>e. handler_write verify NullId h jf = (Some (JsError e), h))"
proof -
  have 1: "readFrames_dispatch d cd c fr1
      = (c\<lparr>inbound := fst (handleCallReq d (inbound c) fr1)\<rparr>, snd (handleCallReq d (inbound c) fr1))"
    using assms(1) by (simp add: readFrames_dispatch_def split_beta)
  have 2: "readFrames_dispatch d cd c fr2 = (c\<lparr>inbound := handleCallReqContinue (inbound c) fr2\<rparr>, None)"
    using assms(2) by (simp add: readFrames_dispatch_def)
  have 3: "conn_state (fst (readFrames_dispatch d cd c3 fr3)) = connectionClosed"
    using assms(3,4)
    by (cases "conn_state c3") (simp_all add: readFrames_dispatch_def handleInitRes_def connectionError_def)
  have 4: "\<exists>e. handler_write verify NullId h jf = (Some (JsError e), h)"
    using assms(9,10)
    by (auto simp: handler_write_def handleCallRequest_def handleCallResponse_def
          handleCallRequestCont_def handleCallResponseCont_def)
  have 5: "readFrames_dispatch d cd c fr4 = (handleCallRes cd c fr4, None)"
    "readFrames_dispatch d cd c fr5 = (handleCallResContinue cd c fr5, None)"
    "readFrames_dispatch d cd c fr6 = (handleError cd c fr6, None)"
    "readFrames_dispatch d cd c fr7 = (c, None)"
    using assms(5-8) by (simp_all add: readFrames_dispatch_def)
  have 6: "\<exists>call. snd (handleCallReq d (inbound c) fr1) = Some call
             \<and> call_id call = Id fr1 \<and> call_state call = inboundCallPreRead
             \<and> curFragment call = Some frag \<and> recvLastFragment call = in_last frag
             \<and> activeReqChs (fst (handleCallReq d (inbound c) fr1)) (Id fr1) = Some (recvCh call)"
    if "activeReqChs (inbound c) (Id fr1) = None"
      "newInboundFragment d (CallReq_read d) fr1 None = Inr (frag, req)"
    using that by (simp add: handleCallReq_def Let_def)
  have 7: "snd (handleCallReq d (inbound c) fr1) = None"
    if "activeReqChs (inbound c) (Id fr1) \<noteq> None
          \<or> (\<exists>e. newInboundFragment d (CallReq_read d) fr1 None = Inl e)"
    using that by (auto simp: handleCallReq_def Let_def)
  have 8: "activeReqChs (fst (handleCallReq d (inbound c) fr1)) = activeReqChs (inbound c)"
    if "activeReqChs (inbound c) (Id fr1) \<noteq> None"
    using that by (auto simp: handleCallReq_def Let_def)
  show ?thesis
    using 2 3 4 5 6 7 8 handleCallReq_registered [of d "inbound c" fr1] by (simp add: 1)
qed

theorem frames_before_Active_witness:
  "conn_state (fst (readFrames_dispatch exDeps exConnDeps (exConn connectionWaitingToRecvInitReq)
                      exCallReqFrame)) = connectionWaitingToRecvInitReq
   \<and> (\<exists>call. snd (readFrames_dispatch exDeps exConnDeps (exConn connectionWaitingToRecvInitReq)
                       exCallReqFrame) = Some call
          \<and> call_id call = 7 \<and> call_state call = inboundCallPreRead
          \<and> map_option chunks (curFragment call) = Some [[1, 2]]
          \<and> activeReqChs (inbound (fst (readFrames_dispatch exDeps exConnDeps
                 (exConn connectionWaitingToRecvInitReq) exCallReqFrame))) 7 = Some (recvCh call))
   \<and> snd (readFrames_dispatch exDeps exConnDeps
             (fst (readFrames_dispatch exDeps exConnDeps (exConn connectionWaitingToRecvInitReq)
                     exCallReqFrame)) exCallReqFrame) = None
   \<and> conn_state (fst (readFrames_dispatch exDeps exConnDeps
             (fst (readFrames_dispatch exDeps exConnDeps (exConn connectionWaitingToRecvInitReq)
                     exCallReqFrame)) exCallReqFrame)) = connectionWaitingToRecvInitReq
   \<and> snd (readFrames_dispatch exDeps exConnDeps (exConn connectionWaitingToRecvInitReq)
             (exCallReqFrame\<lparr>Size := 0\<rparr>)) = None
   \<and> activeReqChs (inbound (fst (readFrames_dispatch exDeps exConnDeps
             (exConn connectionWaitingToRecvInitReq) (exCallReqFrame\<lparr>Size := 0\<rparr>)))) 7 \<noteq> None
   \<and> readFrames_dispatch exDeps exConnDeps (exConn connectionWaitingToRecvInitReq)
        (exCallReqFrame\<lparr>Type := MessageTypeOther 9\<rparr>) = (exConn connectionWaitingToRecvInitReq, None)
   \<and> conn_state (fst (readFrames_dispatch exDeps exConnDeps (exConn connectionWaitingToRecvInitReq)
                        (exCallReqFrame\<lparr>Type := MessageTypeInitRes\<rparr>))) = connectionClosed
   \<and> handler_write (\<lambda>c a p. None) 0 exHandler (exJsFrame CallRequest)
       = (Some (JsError ''call request before init request''), exHandler)"
proof -
  let ?c = "exConn connectionWaitingToRecvInitReq"
  let ?c1 = "fst (readFrames_dispatch exDeps exConnDeps ?c exCallReqFrame)"
  let ?frag = "\<lparr>in_frame = exCallReqFrame, in_last = True,
                 in_checksum = \<lparr>TypeCode = 0, added = [1, 2]\<rparr>, chunks = [[1, 2]]\<rparr>"
  let ?req = "\<lparr>TimeToLive = 1000, Service = ''svc''\<rparr>"
  have a: "Type exCallReqFrame = MessageTypeCallReq" "Type (exCallReqFrame\<lparr>Size := 0\<rparr>) = MessageTypeCallReq"
    by (simp_all add: exCallReqFrame_def)
  have b: "Type (exCallReqFrame\<lparr>Type := MessageTypeCallReqContinue\<rparr>) = MessageTypeCallReqContinue" by simp
  have c: "Type (exCallReqFrame\<lparr>Type := MessageTypeInitRes\<rparr>) = MessageTypeInitRes" by simp
  have d: "conn_state ?c \<noteq> connectionWaitingToRecvInitRes" by (simp add: exConn_def)
  have e: "Type (exCallReqFrame\<lparr>Type := MessageTypeCallRes\<rparr>) = MessageTypeCallRes"
    "Type (exCallReqFrame\<lparr>Type := MessageTypeCallResContinue\<rparr>) = MessageTypeCallResContinue"
    "Type (exCallReqFrame\<lparr>Type := MessageTypeError\<rparr>) = MessageTypeError"
    "Type (exCallReqFrame\<lparr>Type := MessageTypeOther 9\<rparr>) = MessageTypeOther 9"
    by simp_all
  have f: "remoteHostPort exHandler = None" by (simp add: exHandler_def)
  have g: "body_type (exJsFrame CallRequest) \<in> {CallRequest, CallResponse, CallRequestCont, CallResponseCont}"
    by (simp add: exJsFrame_def)
  have st: "conn_state ?c = connectionWaitingToRecvInitReq" by (simp add: exConn_def)
  have i: "Id exCallReqFrame = 7" "Id (exCallReqFrame\<lparr>Size := 0\<rparr>) = 7" by (simp_all add: exCallReqFrame_def)
  have fresh: "activeReqChs (inbound ?c) 7 = None" by (simp add: exConn_def exPipeline_def)
  have dec: "newInboundFragment exDeps (CallReq_read exDeps) exCallReqFrame None = Inr (?frag, ?req)"
    by (simp add: exCallReqFrame_def newInboundFragment_def exDeps_def Let_def Uint16_def
          Checksum_New_def Checksum_Sum_def Checksum_Add_def flagMoreFragments_def)
  have nodec: "newInboundFragment exDeps (CallReq_read exDeps) (exCallReqFrame\<lparr>Size := 0\<rparr>) None = Inl ErrBuffer"
    by (simp add: exCallReqFrame_def newInboundFragment_def)
  note t1 = frames_before_Active [OF a(1) b c d e f g, of exDeps exConnDeps ?c ?frag ?req "\<lambda>c a p. None" 0]
  from t1 have A1: "conn_state ?c1 = conn_state ?c" by blast
  from t1 have A2: "activeReqChs (inbound ?c) (Id exCallReqFrame) = None
          \<and> newInboundFragment exDeps (CallReq_read exDeps) exCallReqFrame None = Inr (?frag, ?req) \<longrightarrow>
          (\<exists>call. snd (readFrames_dispatch exDeps exConnDeps ?c exCallReqFrame) = Some call
             \<and> call_id call = Id exCallReqFrame \<and> call_state call = inboundCallPreRead
             \<and> curFragment call = Some ?frag \<and> recvLastFragment call = in_last ?frag
             \<and> activeReqChs (inbound ?c1) (Id exCallReqFrame) = Some (recvCh call))" by blast
  from t1 have A3: "readFrames_dispatch exDeps exConnDeps ?c (exCallReqFrame\<lparr>Type := MessageTypeOther 9\<rparr>) = (?c, None)"
    by blast
  from t1 have A4: "conn_state (fst (readFrames_dispatch exDeps exConnDeps ?c
                        (exCallReqFrame\<lparr>Type := MessageTypeInitRes\<rparr>))) = connectionClosed" by blast
  from A2 fresh dec obtain call where call: "snd (readFrames_dispatch exDeps exConnDeps ?c exCallReqFrame) = Some call"
    "call_id call = 7" "call_state call = inboundCallPreRead" "curFragment call = Some ?frag"
    "activeReqChs (inbound ?c1) 7 = Some (recvCh call)"
    by (auto simp: i)
  have A: "conn_state ?c1 = connectionWaitingToRecvInitReq
      \<and> (\<exists>call. snd (readFrames_dispatch exDeps exConnDeps ?c exCallReqFrame) = Some call
          \<and> call_id call = 7 \<and> call_state call = inboundCallPreRead
          \<and> map_option chunks (curFragment call) = Some [[1, 2]]
          \<and> activeReqChs (inbound ?c1) 7 = Some (recvCh call))
      \<and> activeReqChs (inbound ?c1) 7 \<noteq> None
      \<and> readFrames_dispatch exDeps exConnDeps ?c (exCallReqFrame\<lparr>Type := MessageTypeOther 9\<rparr>) = (?c, None)
      \<and> conn_state (fst (readFrames_dispatch exDeps exConnDeps ?c
                        (exCallReqFrame\<lparr>Type := MessageTypeInitRes\<rparr>))) = connectionClosed"
    using A1 st call A3 A4 by simp
  then have dup: "activeReqChs (inbound ?c1) 7 \<noteq> None" and st1: "conn_state ?c1 = connectionWaitingToRecvInitReq"
    by blast+
  have d1: "conn_state ?c1 \<noteq> connectionWaitingToRecvInitRes" using st1 by simp
  note t2 = frames_before_Active [OF a(1) b c d1 e f g, of exDeps exConnDeps ?c1 ?frag ?req "\<lambda>c a p. None" 0]
  from t2 have B1: "conn_state (fst (readFrames_dispatch exDeps exConnDeps ?c1 exCallReqFrame)) = conn_state ?c1"
    by blast
  from t2 have B2: "activeReqChs (inbound ?c1) (Id exCallReqFrame) \<noteq> None
          \<or> (\<exists>e. newInboundFragment exDeps (CallReq_read exDeps) exCallReqFrame None = Inl e) \<longrightarrow>
          snd (readFrames_dispatch exDeps exConnDeps ?c1 exCallReqFrame) = None" by blast
  have B: "snd (readFrames_dispatch exDeps exConnDeps ?c1 exCallReqFrame) = None
      \<and> conn_state (fst (readFrames_dispatch exDeps exConnDeps ?c1 exCallReqFrame)) = connectionWaitingToRecvInitReq"
    using B1 B2 dup st1 by (simp add: i)
  note t3 = frames_before_Active [OF a(2) b c d e f g, of exDeps exConnDeps ?c ?frag ?req "\<lambda>c a p. None" 0]
  from t3 have C1: "activeReqChs (inbound ?c) (Id (exCallReqFrame\<lparr>Size := 0\<rparr>)) \<noteq> None
          \<or> (\<exists>e. newInboundFragment exDeps (CallReq_read exDeps) (exCallReqFrame\<lparr>Size := 0\<rparr>) None = Inl e) \<longrightarrow>
          snd (readFrames_dispatch exDeps exConnDeps ?c (exCallReqFrame\<lparr>Size := 0\<rparr>)) = None" by blast
  from t3 have C2: "activeReqChs (inbound (fst (readFrames_dispatch exDeps exConnDeps ?c (exCallReqFrame\<lparr>Size := 0\<rparr>))))
          (Id (exCallReqFrame\<lparr>Size := 0\<rparr>)) \<noteq> None" by blast
  have C: "snd (readFrames_dispatch exDeps exConnDeps ?c (exCallReqFrame\<lparr>Size := 0\<rparr>)) = None
      \<and> activeReqChs (inbound (fst (readFrames_dispatch exDeps exConnDeps ?c (exCallReqFrame\<lparr>Size := 0\<rparr>)))) 7 \<noteq> None"
    using C1 C2 nodec i(2) by simp
  have J: "handler_write (\<lambda>c a p. None) 0 exHandler (exJsFrame CallRequest)
       = (Some (JsError ''call request before init request''), exHandler)"
    using f by (simp add: handler_write_def handleCallRequest_def exJsFrame_def)
  from A B C J show ?thesis by blast
qed

text \<open>
  The claim as stated fails on a connection that still waits for the init request of
  its peer: the call request with id 7 is not treated as a protocol error. The
  connection stays in its state, the id is registered, and the call is started with its
  first fragment decoded.
\<close>

theorem call_request_before_Active_counterexample:
  "conn_state (fst (readFrames_dispatch exDeps exConnDeps (exConn connectionWaitingToRecvInitReq)
                      exCallReqFrame)) = connectionWaitingToRecvInitReq
   \<and> activeReqChs (inbound (fst (readFrames_dispatch exDeps exConnDeps
                      (exConn connectionWaitingToRecvInitReq) exCallReqFrame))) 7 = Some 0
   \<and> map_option call_id
        (snd (readFrames_dispatch exDeps exConnDeps (exConn connectionWaitingToRecvInitReq) exCallReqFrame))
       = Some 7
   \<and> map_option call_state
        (snd (readFrames_dispatch exDeps exConnDeps (exConn connectionWaitingToRecvInitReq) exCallReqFrame))
       = Some inboundCallPreRead
   \<and> map_option chunks (Option.bind
        (snd (readFrames_dispatch exDeps exConnDeps (exConn connectionWaitingToRecvInitReq) exCallReqFrame))
        curFragment) = Some [[1, 2]]"
  by (simp add: readFrames_dispatch_def exCallReqFrame_def exConn_def handleCallReq_def
        newInboundFragment_def exDeps_def exPipeline_def Let_def Uint16_def Checksum_New_def
        Checksum_Sum_def Checksum_Add_def flagMoreFragments_def make_chan_def)

lemma fold_Checksum_Add:
  "fold (\<lambda>chunkBytes c. Checksum_Add c chunkBytes) cs c = c\<lparr>added := added c @ concat cs\<rparr>"
  by (induction cs arbitrary: c) (simp_all add: Checksum_Add_def)

text \<open>
  What \<open>newInboundFragment\<close> does with the checksum, on a frame that parses: the digest
  is taken over the bytes already added to the checksum passed in (none when nil is
  passed) followed by the chunk bytes of the fragment, and the decoding fails with
  \<open>ErrMismatchedChecksum\<close> exactly when it differs from the declared bytes.
\<close>

lemma newInboundFragment_checksum:
  assumes "unat (Size fr) \<le> length (Payload fr)"
    and "take (unat (Size fr)) (Payload fr) = flags # rest"
    and "msgRead rest = Inr (m, t # rest2)"
    and "cso = None \<or> (\<exists>c. cso = Some c \<and> TypeCode c = t)"
    and "ChecksumSize d t \<le> length rest2"
    and "readChunks (drop (ChecksumSize d t) rest2) = Inr cs"
  shows "newInboundFragment d msgRead fr cso =
     (if take (ChecksumSize d t) rest2
           \<noteq> digest d t ((case cso of None \<Rightarrow> [] | Some c \<Rightarrow> added c) @ concat cs)
      then Inl ErrMismatchedChecksum
      else Inr (\<lparr>in_frame = fr, in_last = (flags AND flagMoreFragments = 0),
                 in_checksum = \<lparr>TypeCode = t,
                                 added = (case cso of None \<Rightarrow> [] | Some c \<Rightarrow> added c) @ concat cs\<rparr>,
                 chunks = cs\<rparr>, m))"
  using assms
  by (auto simp: newInboundFragment_def Let_def fold_Checksum_Add Checksum_New_def Checksum_Sum_def)

text \<open>The field \<open>checksum\<close> of a call is nil when the call is built, and \<open>waitForFragment\<close> leaves it alone.\<close>

lemma handleCallReq_checksum_nil:
  "handleCallReq d p fr = (p1, Some call) \<Longrightarrow> call_checksum call = None"
  by (auto simp: handleCallReq_def Let_def split: if_splits sum.splits prod.splits)

lemma waitForFragment_checksum:
  "call_checksum (fst (snd (waitForFragment d (call, p)))) = call_checksum call"
  by (auto simp: waitForFragment_def failed_def Let_def
        split: option.splits list.splits sum.splits prod.splits)

text \<open>
  Claim C3, on the code. The call built by \<open>handleCallReq\<close> has a nil checksum, so every
  continuation fragment is checked against a digest that starts afresh. The second
  fragment whose declared checksum is the digest seeded with the first fragment
  (\<open>exSeededFrame\<close>) is accepted by \<open>newInboundFragment\<close> when the checksum of the first
  fragment is passed in, yet the call fails with \<open>ErrMismatchedChecksum\<close>; the second
  fragment whose declared checksum covers its own chunks only (\<open>exUnseededFrame\<close>) is
  rejected by \<open>newInboundFragment\<close> when the checksum of the first fragment is passed in,
  yet the call reads its first argument \<open>[1, 2, 3]\<close> from it without error.
\<close>

theorem continuation_checksum_not_seeded:
  "map_option call_checksum (snd (handleCallReq exDeps (exPipeline 512 16) exFirstFrame)) = Some None
   \<and> fst (readOperation exDeps (exReceive exFirstFrame exSeededFrame)) = Failed ErrMismatchedChecksum
   \<and> map_sum id (chunks \<circ> fst)
        (newInboundFragment exDeps (CallReqContinue_read exDeps) exSeededFrame
           (Some \<lparr>TypeCode = 1, added = [1, 2]\<rparr>)) = Inr [[3], [4], [5]]
   \<and> fst (readOperation exDeps (exReceive exFirstFrame exUnseededFrame)) = NoError
   \<and> operation (fst (snd (readOperation exDeps (exReceive exFirstFrame exUnseededFrame)))) = [1, 2, 3]
   \<and> map_sum id (chunks \<circ> fst)
        (newInboundFragment exDeps (CallReqContinue_read exDeps) exUnseededFrame
           (Some \<lparr>TypeCode = 1, added = [1, 2]\<rparr>)) = Inl ErrMismatchedChecksum"
proof -
  have 1: "map_option call_checksum (snd (handleCallReq exDeps (exPipeline 512 16) exFirstFrame)) = Some None"
    by code_simp
  have 2: "fst (readOperation exDeps (exReceive exFirstFrame exSeededFrame)) = Failed ErrMismatchedChecksum"
    by code_simp
  have 3: "map_sum id (chunks \<circ> fst)
        (newInboundFragment exDeps (CallReqContinue_read exDeps) exSeededFrame
           (Some \<lparr>TypeCode = 1, added = [1, 2]\<rparr>)) = Inr [[3], [4], [5]]"
    by code_simp
  have 4: "fst (readOperation exDeps (exReceive exFirstFrame exUnseededFrame)) = NoError"
    by code_simp
  have 5: "operation (fst (snd (readOperation exDeps (exReceive exFirstFrame exUnseededFrame)))) = [1, 2, 3]"
    by code_simp
  have 6: "map_sum id (chunks \<circ> fst)
        (newInboundFragment exDeps (CallReqContinue_read exDeps) exUnseededFrame
           (Some \<lparr>TypeCode = 1, added = [1, 2]\<rparr>)) = Inl ErrMismatchedChecksum"
    by code_simp
  from 1 2 3 4 5 6 show ?thesis by blast
qed

text \<open>
  Claim C8, on the code. \<open>newInboundFragment\<close> does compare the checksum type of a
  fragment with the type of the checksum passed in, and fails with
  \<open>ErrMismatchedChecksumTypes\<close> before any chunk is read; but the call passes its nil
  checksum, so the comparison is never made: after a first fragment of checksum type 1
  the continuation of type 0 (\<open>exTypeChangeFrame\<close>) is decoded, and its chunk \<open>[3]\<close> is
  delivered as the rest of the first argument.
\<close>

theorem checksum_type_change_not_detected:
  "fst (readOperation exDeps (exReceive exFirstFrame exTypeChangeFrame)) = NoError
   \<and> operation (fst (snd (readOperation exDeps (exReceive exFirstFrame exTypeChangeFrame)))) = [1, 2, 3]
   \<and> map_sum id (chunks \<circ> fst)
        (newInboundFragment exDeps (CallReqContinue_read exDeps) exTypeChangeFrame
           (Some \<lparr>TypeCode = 1, added = [1, 2]\<rparr>)) = Inl ErrMismatchedChecksumTypes"
proof -
  have 1: "fst (readOperation exDeps (exReceive exFirstFrame exTypeChangeFrame)) = NoError"
    by code_simp
  have 2: "operation (fst (snd (readOperation exDeps (exReceive exFirstFrame exTypeChangeFrame)))) = [1, 2, 3]"
    by code_simp
  have 3: "map_sum id (chunks \<circ> fst)
        (newInboundFragment exDeps (CallReqContinue_read exDeps) exTypeChangeFrame
           (Some \<lparr>TypeCode = 1, added = [1, 2]\<rparr>)) = Inl ErrMismatchedChecksumTypes"
    by code_simp
  from 1 2 3 show ?thesis by blast
qed

text \<open>
  The mismatch of checksum types at the level of the functions: \<open>newInboundFragment\<close>
  with a checksum passed in, and the continuation handlers of the Node variant, which
  fail before the arguments of the frame reach the argument streams.
\<close>

lemma newInboundFragment_type_mismatch:
  assumes "unat (Size fr) \<le> length (Payload fr)"
    and "take (unat (Size fr)) (Payload fr) = flags # rest"
    and "msgRead rest = Inr (m, t # rest2)" and "TypeCode c \<noteq> t"
  shows "newInboundFragment d msgRead fr (Some c) = Inl ErrMismatchedChecksumTypes"
  using assms by (simp add: newInboundFragment_def)

lemma handleCont_type_mismatch:
  "csum_type (in_checksum r) \<noteq> csum_type (body_csum fr) \<Longrightarrow>
     handleCont verify r fr = (Some (JsError ''checksum type changed mid-tream''), r)"
  by (simp add: handleCont_def)

text \<open>
  Claim C1, on the code: four triples of arguments that do not come back, with frames
  of 16 payload bytes. With empty second and third arguments the writer sends one
  fragment with the one chunk \<open>[1, 2]\<close>, and the reader fails with \<open>io.EOF\<close> when it ends
  the first argument. With a first argument that leaves two bytes of its fragment
  unused, the second argument starts the next fragment and the reader takes its bytes
  as the rest of the first. With a first argument that fills its fragment and a
  checksum that rolls over the fragments, the reader rejects the second fragment
  (the defect of claim C3). With an empty first argument the writer dereferences its
  nil fragment. A triple of short non-empty arguments in one fragment does come back.
\<close>

theorem argument_round_trip_fails:
  "map SizedPayload (buf (sendCh (snd (snd (writeArgs exDeps (exResponse 0, exPipeline 512 16) [1, 2] [] [])))))
     = [[0, 0, 0, 2, 1, 2]]
   \<and> roundTrip exDeps (exResponse 0, exPipeline 512 16) (exPipeline 512 16) [1, 2] [] []
     = Inr (Failed EOF, [])
   \<and> roundTrip exDeps (exResponse 0, exPipeline 512 16) (exPipeline 512 16)
        [1, 2, 3, 4, 5, 6, 7, 8, 9, 10] [11] [12]
     = Inr (Failed EOF, [[1, 2, 3, 4, 5, 6, 7, 8, 9, 10, 11]])
   \<and> roundTrip exDeps (exResponse 1, exPipeline 512 16) (exPipeline 512 16)
        [1, 2, 3, 4, 5, 6, 7, 8] [9] [10]
     = Inr (Failed ErrMismatchedChecksum, [])
   \<and> roundTrip exDeps (exResponse 0, exPipeline 512 16) (exPipeline 512 16) [] [1] [2]
     = Inl PanicNilPointer
   \<and> roundTrip exDeps (exResponse 1, exPipeline 512 16) (exPipeline 512 16) [1] [2] [3]
     = Inr (NoError, [[1], [2], [3]])"
proof -
  have 1: "map SizedPayload (buf (sendCh (snd (snd (writeArgs exDeps (exResponse 0, exPipeline 512 16) [1, 2] [] [])))))
     = [[0, 0, 0, 2, 1, 2]]"
    by code_simp
  have 2: "roundTrip exDeps (exResponse 0, exPipeline 512 16) (exPipeline 512 16) [1, 2] [] []
     = Inr (Failed EOF, [])"
    by code_simp
  have 3: "roundTrip exDeps (exResponse 0, exPipeline 512 16) (exPipeline 512 16)
        [1, 2, 3, 4, 5, 6, 7, 8, 9, 10] [11] [12]
     = Inr (Failed EOF, [[1, 2, 3, 4, 5, 6, 7, 8, 9, 10, 11]])"
    by code_simp
  have 4: "roundTrip exDeps (exResponse 1, exPipeline 512 16) (exPipeline 512 16)
        [1, 2, 3, 4, 5, 6, 7, 8] [9] [10]
     = Inr (Failed ErrMismatchedChecksum, [])"
    by code_simp
  have 5: "roundTrip exDeps (exResponse 0, exPipeline 512 16) (exPipeline 512 16) [] [1] [2]
     = Inl PanicNilPointer"
    by code_simp
  have 6: "roundTrip exDeps (exResponse 1, exPipeline 512 16) (exPipeline 512 16) [1] [2] [3]
     = Inr (NoError, [[1], [2], [3]])"
    by code_simp
  from 1 2 3 4 5 6 show ?thesis by blast
qed

text \<open>
  No operation of the reader assigns the field \<open>checksum\<close> of the call: it is nil from
  \<open>handleCallReq\<close> on, through every read of every argument.
\<close>

lemma takeChunk_checksum:
  "call_checksum (fst (snd (takeChunk r s))) = call_checksum (fst s)"
  by (cases s) (auto simp: takeChunk_def nextChunk_def split: option.splits list.splits)

lemma waitForFragment_checksum':
  "call_checksum (fst (snd (waitForFragment d s))) = call_checksum (fst s)"
  using waitForFragment_checksum [of d "fst s" "snd s"] by simp

lemma Read_step_checksum:
  "Read_step d (r, s, n, acc) = Inl (out, r1, s1) \<Longrightarrow> call_checksum (fst s1) = call_checksum (fst s)"
  "Read_step d (r, s, n, acc) = Inr (r2, s2, n2, acc2) \<Longrightarrow> call_checksum (fst s2) = call_checksum (fst s)"
  using waitForFragment_checksum' [of d s] takeChunk_checksum [of r "snd (waitForFragment d s)"]
  by (auto simp: Read_step_def copyChunk_def Let_def
        split: if_splits prod.splits status.splits sum.splits)

lemma Read_loop_checksum:
  "Read_loop d (r, s, n, acc) = (out, r1, s1) \<Longrightarrow> call_checksum (fst s1) = call_checksum (fst s)"
proof (induction d "(r, s, n, acc)" arbitrary: r s n acc rule: Read_loop.induct)
  case (1 d)
  show ?case
  proof (cases "Read_step d (r, s, n, acc)")
    case (Inl res)
    with "1.prems" have "Read_step d (r, s, n, acc) = Inl (out, r1, s1)"
      by (simp add: Read_loop_Inl)
    then show ?thesis by (rule Read_step_checksum)
  next
    case (Inr x1)
    obtain r2 s2 n2 acc2 where x1: "x1 = (r2, s2, n2, acc2)" by (cases x1)
    from Inr "1.prems" have "Read_loop d (r2, s2, n2, acc2) = (out, r1, s1)"
      by (simp add: Read_loop_Inr x1)
    from "1.hyps" [OF Inr [unfolded x1] this] Read_step_checksum(2) [OF Inr [unfolded x1]]
    show ?thesis by simp
  qed
qed

lemma ReadAll_loop_checksum:
  "ReadAll_loop d (r, s, acc) = (out, r1, s1) \<Longrightarrow> call_checksum (fst s1) = call_checksum (fst s)"
proof (induction d "(r, s, acc)" arbitrary: r s acc rule: ReadAll_loop.induct)
  case (1 d)
  obtain bs st r2 s2 where rd: "Read_loop d (r, s, 512, []) = ((bs, st), r2, s2)"
    by (metis prod.exhaust)
  note c = Read_loop_checksum [OF rd]
  show ?case
  proof (cases "ReadAll_step d (r, s, acc)")
    case (Inl res)
    with "1.prems" have "res = (out, r1, s1)"
      by (simp add: ReadAll_loop.simps [of d "(r, s, acc)"])
    with Inl rd have "s1 = s2"
      by (auto simp: ReadAll_step_def multiPartReader_Read_def split: status.splits if_splits)
    with c show ?thesis by simp
  next
    case (Inr x1)
    with rd have x1: "x1 = (r2, s2, acc @ bs)"
      by (auto simp: ReadAll_step_def multiPartReader_Read_def split: status.splits if_splits)
    from Inr "1.prems" have "ReadAll_loop d (r2, s2, acc @ bs) = (out, r1, s1)"
      by (simp add: ReadAll_loop.simps [of d "(r, s, acc)"] x1)
    from "1.hyps" [OF Inr [unfolded x1] this] c show ?thesis by simp
  qed
qed

lemma endPart_checksum:
  "multiPartReader_endPart d r s = (st, r1, s1) \<Longrightarrow> call_checksum (fst s1) = call_checksum (fst s)"
  using waitForFragment_checksum' [of d s]
  by (auto simp: multiPartReader_endPart_def nextChunk_def
        split: prod.splits status.splits option.splits list.splits if_splits)

lemma failed_checksum:
  "failed s e = (e1, s1) \<Longrightarrow> call_checksum (fst s1) = call_checksum (fst s)"
  by (cases s) (auto simp: failed_def)

lemma failedStatus_checksum:
  "failedStatus s st = (st1, s1) \<Longrightarrow> call_checksum (fst s1) = call_checksum (fst s)"
  by (auto simp: failedStatus_def split: status.splits prod.splits dest: failed_checksum)

lemma readArg_checksum:
  assumes "readArg d s expected lastF next = (out, s3)"
  shows "call_checksum (fst s3) = call_checksum (fst s)"
proof (cases "call_state (fst s) \<noteq> expected")
  case True
  with assms show ?thesis
    by (auto simp: readArg_def split: prod.splits dest: failed_checksum)
next
  case False
  obtain arg st r1 s1 where ra: "ReadAll_loop d (newMultiPartReader lastF, s, []) = ((arg, st), r1, s1)"
    by (metis prod.exhaust)
  note c1 = ReadAll_loop_checksum [OF ra]
  show ?thesis
  proof (cases "st = NoError")
    case ne: False
    with assms False ra obtain st1 where "failedStatus s1 st = (st1, s3)"
      by (cases st) (auto simp: readArg_def ReadAll_def split: prod.splits)
    from failedStatus_checksum [OF this] c1 show ?thesis by simp
  next
    case True
    obtain st2 r2 s2 where ep: "multiPartReader_endPart d r1 s1 = (st2, r2, s2)"
      by (metis prod.exhaust)
    note c2 = endPart_checksum [OF ep]
    show ?thesis
    proof (cases "st2 = NoError")
      case True
      with assms False ra \<open>st = NoError\<close> ep have "call_checksum (fst s3) = call_checksum (fst s2)"
        by (cases s2) (auto simp: readArg_def ReadAll_def)
      with c1 c2 show ?thesis by simp
    next
      case ne2: False
      with assms False ra \<open>st = NoError\<close> ep obtain st1 where "failedStatus s2 st2 = (st1, s3)"
        by (cases st2) (auto simp: readArg_def ReadAll_def split: prod.splits)
      from failedStatus_checksum [OF this] c1 c2 show ?thesis by simp
    qed
  qed
qed

lemma readOperation_checksum:
  assumes "readOperation d s = (st, s1)"
  shows "call_checksum (fst s1) = call_checksum (fst s)"
proof -
  obtain out s0 where ra: "readArg d s inboundCallPreRead False inboundCallReadyToReadArg2 = (out, s0)"
    by (metis prod.exhaust)
  from assms ra have "call_checksum (fst s1) = call_checksum (fst s0)"
    by (cases out; cases s0) (auto simp: readOperation_def split: status.splits)
  with readArg_checksum [OF ra] show ?thesis by simp
qed

end
